theory Spec2Isabelle
  imports Main "HOL-Library.Word" "HOL-Library.Char_ord" "HOL-Library.List_Lexorder"
    "HOL-Library.Sublist"
begin

section \<open>The environment of internal/session/gemini.go\<close>

text \<open>
  The Go code talks to the file system and to a handful of library functions. They are
  the fields of one record, so that every theorem below holds for every file system and
  every behaviour of the library. A Go \<open>string\<close> is a byte sequence and \<open>len\<close> counts
  bytes, which is \<open>string\<close> (a \<open>char list\<close>) here. A \<open>time.Time\<close> is the instant it
  denotes, an \<open>int\<close> of nanoseconds counted from Go's zero Time (1 January of year 1),
  so that \<open>IsZero t\<close> is \<open>t = 0\<close>, \<open>t.After u\<close> is \<open>u < t\<close> and \<open>t.Equal u\<close> is \<open>t = u\<close>.
  Go's \<open>int\<close> is the 64-bit one (\<open>64 word\<close>, addition wraps).
\<close>

type_synonym time = int
type_synonym go_int = "64 word"

record DirEntry =
  Name :: string
  IsDir :: bool

record message =
  msg_Type :: string
  msg_Model :: string
  msg_Tokens_Input :: go_int
  msg_Tokens_Output :: go_int

text \<open>The anonymous struct \<open>session\<close> that the transcript is decoded into.\<close>

record session =
  SessionID :: string
  session_StartTime :: string
  session_LastUpdated :: string
  Messages :: "message list"

text \<open>
  \<open>filepath_Glob\<close> is the list \<open>filepath.Glob\<close> returns, in its order (its error is
  dropped by the code); \<open>os_Stat\<close> is the \<open>ModTime\<close> of the \<open>FileInfo\<close>, \<open>None\<close> when
  \<open>os.Stat\<close> returns an error; \<open>os_ReadDir\<close>, \<open>os_ReadFile\<close>, \<open>filepath_Abs\<close> and
  \<open>filepath_EvalSymlinks\<close> are \<open>None\<close> on an error; \<open>os_UserHomeDir\<close> is the string
  returned (the error is dropped by the code); \<open>json_Unmarshal\<close> is \<open>None\<close> when
  decoding into the \<open>session\<close> struct fails; \<open>time_Parse layout value\<close> is the Time
  returned, the zero Time when parsing fails (the code drops the error);
  \<open>geminiConfigDirOverride\<close> is the package variable of that name.
\<close>

record sys =
  filepath_Glob :: "string \<Rightarrow> string list"
  os_Stat :: "string \<Rightarrow> time option"
  os_ReadDir :: "string \<Rightarrow> DirEntry list option"
  os_ReadFile :: "string \<Rightarrow> string option"
  filepath_Abs :: "string \<Rightarrow> string option"
  filepath_EvalSymlinks :: "string \<Rightarrow> string option"
  os_UserHomeDir :: string
  filepath_Join :: "string list \<Rightarrow> string"
  sha256_hex :: "string \<Rightarrow> string"
  json_Unmarshal :: "string \<Rightarrow> session option"
  time_Parse :: "string \<Rightarrow> string \<Rightarrow> time"
  geminiConfigDirOverride :: string

text \<open>
  Every call that leaves the process, and every decoding of a transcript, is written to
  a trace, in the order the code makes them.
\<close>

datatype io_event =
    EvGlob string
  | EvStat string
  | EvReadDir string
  | EvReadFile string
  | EvAbs string
  | EvEvalSymlinks string
  | EvUserHomeDir
  | EvUnmarshal string

fun is_read :: "io_event \<Rightarrow> bool" where
  "is_read (EvReadFile f) = True"
| "is_read e = False"

fun is_parse :: "io_event \<Rightarrow> bool" where
  "is_parse (EvUnmarshal d) = True"
| "is_parse e = False"

section \<open>Locating the transcript\<close>

text \<open>
  The loop of \<open>findNewestFile\<close> over \<open>files\<close>, with the variables \<open>newestFile\<close> and
  \<open>newestTime\<close> as accumulators: a file whose \<open>os.Stat\<close> fails is skipped, a file
  replaces the current one only when its time is strictly after \<open>newestTime\<close>.
\<close>

fun findNewestFile_loop ::
  "(string \<Rightarrow> time option) \<Rightarrow> string list \<Rightarrow> string \<Rightarrow> time \<Rightarrow> string \<times> time \<times> io_event list"
where
  "findNewestFile_loop stat [] newestFile newestTime = (newestFile, newestTime, [])"
| "findNewestFile_loop stat (file # files) newestFile newestTime =
     (let (f, t, tr) =
        (case stat file of
           None \<Rightarrow> findNewestFile_loop stat files newestFile newestTime
         | Some modTime \<Rightarrow>
             if newestTime < modTime
             then findNewestFile_loop stat files file modTime
             else findNewestFile_loop stat files newestFile newestTime)
      in (f, t, EvStat file # tr))"

definition findNewestFile :: "sys \<Rightarrow> string \<Rightarrow> string \<times> io_event list" where
  "findNewestFile s pattern =
     (let files = filepath_Glob s pattern in
      if length files = 0 then ('''', [EvGlob pattern])
      else if length files = 1 then (hd files, [EvGlob pattern])
      else let (f, t, tr) = findNewestFile_loop (os_Stat s) files '''' 0
           in (f, EvGlob pattern # tr))"

definition GetGeminiConfigDir :: "sys \<Rightarrow> string \<times> io_event list" where
  "GetGeminiConfigDir s =
     (if geminiConfigDirOverride s \<noteq> '''' then (geminiConfigDirOverride s, [])
      else (filepath_Join s [os_UserHomeDir s, ''.gemini''], [EvUserHomeDir]))"

definition HashProjectPath :: "sys \<Rightarrow> string \<Rightarrow> string \<times> io_event list" where
  "HashProjectPath s projectPath =
     (case filepath_Abs s projectPath of
        None \<Rightarrow> ('''', [EvAbs projectPath])
      | Some absPath \<Rightarrow>
          (let realPath = (case filepath_EvalSymlinks s absPath of
                             None \<Rightarrow> absPath
                           | Some p \<Rightarrow> p)
           in (sha256_hex s realPath, [EvAbs projectPath, EvEvalSymlinks absPath])))"

definition GetGeminiSessionsDir :: "sys \<Rightarrow> string \<Rightarrow> string \<times> io_event list" where
  "GetGeminiSessionsDir s projectPath =
     (let (configDir, tr1) = GetGeminiConfigDir s;
          (projectHash, tr2) = HashProjectPath s projectPath
      in if projectHash = '''' then ('''', tr1 @ tr2)
         else (filepath_Join s [configDir, ''tmp'', projectHash, ''chats''], tr1 @ tr2))"

text \<open>
  The body of the loop of \<open>findGeminiSessionInAllProjects\<close> for one directory entry:
  the new values of \<open>newestFile\<close> and \<open>newestTime\<close>, and the calls made.
\<close>

definition findGeminiSessionInAllProjects_body ::
  "sys \<Rightarrow> string \<Rightarrow> string \<Rightarrow> DirEntry \<Rightarrow> string \<Rightarrow> time \<Rightarrow> string \<times> time \<times> io_event list"
where
  "findGeminiSessionInAllProjects_body s tmpDir targetPattern entry newestFile newestTime =
     (if \<not> IsDir entry then (newestFile, newestTime, [])
      else
        let chatsDir = filepath_Join s [tmpDir, Name entry, ''chats''];
            pattern = filepath_Join s [chatsDir, targetPattern];
            (file, tr) = findNewestFile s pattern
        in if file \<noteq> '''' then
             (case os_Stat s file of
                Some modTime \<Rightarrow>
                  if newestTime < modTime then (file, modTime, tr @ [EvStat file])
                  else (newestFile, newestTime, tr @ [EvStat file])
              | None \<Rightarrow> (newestFile, newestTime, tr @ [EvStat file]))
           else (newestFile, newestTime, tr))"

fun findGeminiSessionInAllProjects_loop ::
  "sys \<Rightarrow> string \<Rightarrow> string \<Rightarrow> DirEntry list \<Rightarrow> string \<Rightarrow> time \<Rightarrow> string \<times> time \<times> io_event list"
where
  "findGeminiSessionInAllProjects_loop s tmpDir targetPattern [] newestFile newestTime =
     (newestFile, newestTime, [])"
| "findGeminiSessionInAllProjects_loop s tmpDir targetPattern (entry # entries)
       newestFile newestTime =
     (let (f1, t1, tr1) =
            findGeminiSessionInAllProjects_body s tmpDir targetPattern entry
              newestFile newestTime;
          (f, t, tr) = findGeminiSessionInAllProjects_loop s tmpDir targetPattern entries f1 t1
      in (f, t, tr1 @ tr))"

definition findGeminiSessionInAllProjects :: "sys \<Rightarrow> string \<Rightarrow> string \<times> io_event list" where
  "findGeminiSessionInAllProjects s sessionID =
     (if sessionID = '''' \<or> length sessionID < 8 then ('''', [])
      else
        let (configDir, tr0) = GetGeminiConfigDir s;
            tmpDir = filepath_Join s [configDir, ''tmp'']
        in case os_ReadDir s tmpDir of
             None \<Rightarrow> ('''', tr0 @ [EvReadDir tmpDir])
           | Some entries \<Rightarrow>
               (let targetPattern = ''session-*-'' @ take 8 sessionID @ ''.json'';
                    (f, t, tr) =
                      findGeminiSessionInAllProjects_loop s tmpDir targetPattern entries '''' 0
                in (f, tr0 @ EvReadDir tmpDir # tr)))"

section \<open>The analytics snapshot and its refresh\<close>

text \<open>
  \<open>GeminiSessionAnalytics\<close>, with the fields \<open>UpdateGeminiAnalyticsFromDisk\<close> reads and
  writes. The struct is declared in another file; fields the function does not touch
  live in the record's extension, so "unchanged" below covers them too. A
  \<open>time.Duration\<close> is a count of nanoseconds.
\<close>

record GeminiSessionAnalytics =
  InputTokens :: go_int
  OutputTokens :: go_int
  CurrentContextTokens :: go_int
  TotalTurns :: go_int
  Model :: string
  StartTime :: time
  LastActive :: time
  Duration :: int
  LastFileModTime :: time

datatype error =
    InvalidSessionID
  | SessionFileNotFound
  | ReadSessionFileFailed
  | ParseSessionFailed

text \<open>\<open>t.Sub u\<close>: the difference, saturated to the range of \<open>time.Duration\<close> (an int64).\<close>

definition time_Sub :: "time \<Rightarrow> time \<Rightarrow> int" where
  "time_Sub t u = max (- (2 ^ 63)) (min (2 ^ 63 - 1) (t - u))"

text \<open>The loop over \<open>session.Messages\<close> (lines 385 to 400).\<close>

fun accumulateMessages ::
  "message list \<Rightarrow> 'a GeminiSessionAnalytics_scheme \<Rightarrow> 'a GeminiSessionAnalytics_scheme"
where
  "accumulateMessages [] analytics = analytics"
| "accumulateMessages (msg # msgs) analytics =
     (if msg_Type msg = ''gemini'' then
        accumulateMessages msgs
          (let a1 = analytics\<lparr>InputTokens := InputTokens analytics + msg_Tokens_Input msg\<rparr>;
               a2 = a1\<lparr>OutputTokens := OutputTokens a1 + msg_Tokens_Output msg\<rparr>;
               a3 = a2\<lparr>TotalTurns := TotalTurns a2 + 1\<rparr>;
               a4 = (if msg_Model msg \<noteq> '''' then a3\<lparr>Model := msg_Model msg\<rparr> else a3)
           in a4\<lparr>CurrentContextTokens := msg_Tokens_Input msg\<rparr>)
      else accumulateMessages msgs analytics)"

text \<open>
  What the function does to the snapshot once the transcript is decoded (lines 356 to
  400): \<open>info\<close> is the result of the \<open>os.Stat\<close> made before the read.
\<close>

definition applySession ::
  "sys \<Rightarrow> time option \<Rightarrow> session \<Rightarrow> 'a GeminiSessionAnalytics_scheme
     \<Rightarrow> 'a GeminiSessionAnalytics_scheme"
where
  "applySession s info session analytics =
     (let a1 = (case info of
                  Some modTime \<Rightarrow> analytics\<lparr>LastFileModTime := modTime\<rparr>
                | None \<Rightarrow> analytics);
          startTime0 = time_Parse s ''2006-01-02T15:04:05Z07:00'' (session_StartTime session);
          startTime = (if startTime0 = 0
                       then time_Parse s ''2006-01-02T15:04:05.999Z'' (session_StartTime session)
                       else startTime0);
          lastUpdated0 = time_Parse s ''2006-01-02T15:04:05Z07:00'' (session_LastUpdated session);
          lastUpdated = (if lastUpdated0 = 0
                         then time_Parse s ''2006-01-02T15:04:05.999Z''
                                (session_LastUpdated session)
                         else lastUpdated0);
          a2 = a1\<lparr>StartTime := startTime, LastActive := lastUpdated\<rparr>;
          a3 = (if startTime \<noteq> 0 \<and> lastUpdated \<noteq> 0
                then a2\<lparr>Duration := time_Sub lastUpdated startTime\<rparr> else a2);
          a4 = a3\<lparr>InputTokens := 0, OutputTokens := 0, TotalTurns := 0, Model := ''''\<rparr>
      in accumulateMessages (Messages session) a4)"

text \<open>
  Lines 311 to 320: the expected directory first, every project directory when that
  finds nothing.
\<close>

definition locateSessionFile :: "sys \<Rightarrow> string \<Rightarrow> string \<Rightarrow> string \<times> io_event list" where
  "locateSessionFile s projectPath sessionID =
     (let (sessionsDir, tr1) = GetGeminiSessionsDir s projectPath;
          pattern = filepath_Join s [sessionsDir, ''session-*-'' @ take 8 sessionID @ ''.json''];
          (latestFile, tr2) = findNewestFile s pattern
      in if latestFile = ''''
         then (let (latestFile', tr3) = findGeminiSessionInAllProjects s sessionID
               in (latestFile', tr1 @ tr2 @ tr3))
         else (latestFile, tr1 @ tr2))"

text \<open>
  Lines 326 to 403, from the \<open>os.Stat\<close> of the located file on. The result is the
  error (\<open>None\<close> for \<open>nil\<close>), the snapshot behind the pointer after the call, and the
  calls made.
\<close>

definition refreshFromFile ::
  "sys \<Rightarrow> string \<Rightarrow> 'a GeminiSessionAnalytics_scheme
     \<Rightarrow> error option \<times> 'a GeminiSessionAnalytics_scheme \<times> io_event list"
where
  "refreshFromFile s latestFile analytics =
     (let info = os_Stat s latestFile in
      if info \<noteq> None \<and> LastFileModTime analytics \<noteq> 0
           \<and> info = Some (LastFileModTime analytics)
      then (None, analytics, [EvStat latestFile])
      else
        (case os_ReadFile s latestFile of
           None \<Rightarrow>
             (Some ReadSessionFileFailed, analytics, [EvStat latestFile, EvReadFile latestFile])
         | Some data \<Rightarrow>
             (case json_Unmarshal s data of
                None \<Rightarrow>
                  (Some ParseSessionFailed, analytics,
                   [EvStat latestFile, EvReadFile latestFile, EvUnmarshal data])
              | Some session \<Rightarrow>
                  (None, applySession s info session analytics,
                   [EvStat latestFile, EvReadFile latestFile, EvUnmarshal data]))))"

definition UpdateGeminiAnalyticsFromDisk ::
  "sys \<Rightarrow> string \<Rightarrow> string \<Rightarrow> 'a GeminiSessionAnalytics_scheme
     \<Rightarrow> error option \<times> 'a GeminiSessionAnalytics_scheme \<times> io_event list"
where
  "UpdateGeminiAnalyticsFromDisk s projectPath sessionID analytics =
     (if sessionID = '''' \<or> length sessionID < 8 then (Some InvalidSessionID, analytics, [])
      else
        let (latestFile, tr1) = locateSessionFile s projectPath sessionID
        in if latestFile = '''' then (Some SessionFileNotFound, analytics, tr1)
           else (let (err, analytics', tr2) = refreshFromFile s latestFile analytics
                 in (err, analytics', tr1 @ tr2)))"

section \<open>The list of models\<close>

text \<open>
  \<open>strings.Split s sep\<close> for a separator of one byte (the code splits on \<open>","\<close>): the
  pieces between the separators, one more than there are separators.
\<close>

fun strings_Split :: "string \<Rightarrow> char \<Rightarrow> string list" where
  "strings_Split [] sep = [[]]"
| "strings_Split (c # cs) sep =
     (if c = sep then [] # strings_Split cs sep
      else (case strings_Split cs sep of
              [] \<Rightarrow> [[c]]
            | piece # pieces \<Rightarrow> (c # piece) # pieces))"

text \<open>
  The UTF-8 encodings of the code points that \<open>unicode.IsSpace\<close> accepts: tab, line
  feed, vertical tab, form feed, carriage return, space, U+0085, U+00A0, U+1680,
  U+2000 to U+200A, U+2028, U+2029, U+202F, U+205F and U+3000.
\<close>

definition unicode_White_Space :: "string list" where
  "unicode_White_Space =
     [[CHR 0x09], [CHR 0x0A], [CHR 0x0B], [CHR 0x0C], [CHR 0x0D], [CHR 0x20],
      [CHR 0xC2, CHR 0x85], [CHR 0xC2, CHR 0xA0], [CHR 0xE1, CHR 0x9A, CHR 0x80]]
     @ map (\<lambda>b. [CHR 0xE2, CHR 0x80, b])
         [CHR 0x80, CHR 0x81, CHR 0x82, CHR 0x83, CHR 0x84, CHR 0x85, CHR 0x86, CHR 0x87,
          CHR 0x88, CHR 0x89, CHR 0x8A, CHR 0xA8, CHR 0xA9, CHR 0xAF]
     @ [[CHR 0xE2, CHR 0x81, CHR 0x9F], [CHR 0xE3, CHR 0x80, CHR 0x80]]"

text \<open>Strip, as long as there is one, a leading sequence that is one of \<open>seqs\<close>.\<close>

function trim_leading :: "string list \<Rightarrow> string \<Rightarrow> string" where
  "trim_leading seqs s =
     (case find (\<lambda>p. p \<noteq> [] \<and> prefix p s) seqs of
        None \<Rightarrow> s
      | Some p \<Rightarrow> trim_leading seqs (drop (length p) s))"
  by pat_completeness auto
termination
proof (relation "measure (\<lambda>(seqs, s). length s)")
  show "wf (measure (\<lambda>(seqs, s). length s))" by simp
next
  fix seqs :: "string list" and s p :: string
  assume "find (\<lambda>p. p \<noteq> [] \<and> prefix p s) seqs = Some p"
  then have "p \<noteq> []" "prefix p s"
    by (auto simp: find_Some_iff)
  then have "0 < length p" "length p \<le> length s"
    by (auto simp: prefix_def)
  then have "length s - length p < length s"
    by arith
  then show "((seqs, drop (length p) s), (seqs, s)) \<in> measure (\<lambda>(seqs, s). length s)"
    by simp
qed

text \<open>\<open>strings.TrimSpace\<close>: white space is stripped at the front, then at the back.\<close>

definition strings_TrimSpace :: "string \<Rightarrow> string" where
  "strings_TrimSpace s =
     rev (trim_leading (map rev unicode_White_Space) (rev (trim_leading unicode_White_Space s)))"

text \<open>
  What \<open>GetAvailableGeminiModels\<close> reads from outside: the environment variables, the
  clock, \<open>http.Get\<close> (\<open>None\<close> for an error, else the status code and the body, the
  body being \<open>None\<close> when \<open>io.ReadAll\<close> fails) and the decoding of the body into the
  list of names with their supported generation methods. The package variables
  \<open>geminiModelsCache\<close> and \<open>geminiModelsLast\<close> are the state.
\<close>

record models_env =
  os_Getenv :: "string \<Rightarrow> string"
  time_Now :: time
  http_Get :: "string \<Rightarrow> (int \<times> string option) option"
  json_Unmarshal_models :: "string \<Rightarrow> (string \<times> string list) list option"

record models_cache =
  geminiModelsCache :: "string list"
  geminiModelsLast :: time

datatype models_error =
    FetchModelsFailed
  | ApiStatus int
  | ReadResponseFailed
  | ParseModelsFailed

definition default_models :: "string list" where
  "default_models =
     [''gemini-3-pro-preview'', ''gemini-3-flash-preview'', ''gemini-2.5-pro'',
      ''gemini-2.5-flash'', ''gemini-2.5-flash-lite'', ''gemini-2.0-flash'',
      ''gemini-1.5-flash'', ''gemini-1.5-pro'']"

definition time_Hour :: int where
  "time_Hour = 3600 * 1000000000"

definition short_name :: "string \<Rightarrow> string" where
  "short_name name = (if prefix ''models/'' name then drop 7 name else name)"

definition GetAvailableGeminiModels ::
  "models_env \<Rightarrow> models_cache \<Rightarrow> (models_error + string list) \<times> models_cache"
where
  "GetAvailableGeminiModels env cache =
     (let override = os_Getenv env ''GEMINI_MODELS_OVERRIDE'' in
      if override \<noteq> ''''
      then (Inr (sort (map strings_TrimSpace (strings_Split override CHR '',''))), cache)
      else if length (geminiModelsCache cache) > 0
                \<and> time_Sub (time_Now env) (geminiModelsLast cache) < time_Hour
      then (Inr (geminiModelsCache cache), cache)
      else
        let apiKey = os_Getenv env ''GOOGLE_API_KEY'' in
        if apiKey = '''' then (Inr default_models, cache)
        else
          (case http_Get env
                  (''https://generativelanguage.googleapis.com/v1beta/models?key='' @ apiKey) of
             None \<Rightarrow> (Inl FetchModelsFailed, cache)
           | Some (statusCode, body) \<Rightarrow>
               if statusCode \<noteq> 200 then (Inl (ApiStatus statusCode), cache)
               else
                 (case body of
                    None \<Rightarrow> (Inl ReadResponseFailed, cache)
                  | Some bytes \<Rightarrow>
                      (case json_Unmarshal_models env bytes of
                         None \<Rightarrow> (Inl ParseModelsFailed, cache)
                       | Some result \<Rightarrow>
                           (let models =
                                  sort (map (\<lambda>m. short_name (fst m))
                                         (filter (\<lambda>m. ''generateContent'' \<in> set (snd m)) result))
                            in (Inr models,
                                cache\<lparr>geminiModelsCache := models,
                                      geminiModelsLast := time_Now env\<rparr>))))))"

section \<open>Synchronisation of the YOLO mode with the tmux session\<close>

text \<open>
  Modelled from the spec: the multiplexer adapter, which is not among the sources. The
  server holds, for every live session name, the environment of that session;
  \<open>SetEnvironment\<close> and \<open>GetEnvironment\<close> fail (\<open>AdapterError\<close>, respectively no value)
  when the session does not exist (section 4.1 of the spec).
\<close>

type_synonym tmux_server = "string \<rightharpoonup> (string \<rightharpoonup> string)"

datatype adapter_error = AdapterError

definition SetEnvironment ::
  "tmux_server \<Rightarrow> string \<Rightarrow> string \<Rightarrow> string \<Rightarrow> adapter_error option \<times> tmux_server"
where
  "SetEnvironment tm name key v =
     (case tm name of
        None \<Rightarrow> (Some AdapterError, tm)
      | Some env \<Rightarrow> (None, tm(name \<mapsto> env(key \<mapsto> v))))"

definition GetEnvironment :: "tmux_server \<Rightarrow> string \<Rightarrow> string \<Rightarrow> string option" where
  "GetEnvironment tm name key = (case tm name of None \<Rightarrow> None | Some env \<Rightarrow> env key)"

text \<open>
  Modelled from the spec: the part of \<open>Instance\<close> (internal/session/instance.go, not
  among the sources) that the mode synchronisation uses: the name of its tmux session
  and the flag \<open>GeminiYoloMode\<close>, a \<open>*bool\<close> that is \<open>nil\<close> while undetermined.
\<close>

record Instance =
  tmuxSession :: string
  GeminiYoloMode :: "bool option"

text \<open>
  Modelled from the spec: \<open>SetGeminiYoloMode\<close> of internal/session/instance.go, not
  among the sources (section 4.2, \<open>SetOperatingMode\<close>): it sets the flag in memory,
  then calls \<open>SetEnv\<close> with the boolean rendered as \<open>"true"\<close> or \<open>"false"\<close>; when that
  fails the flag stays updated and the adapter's error is returned.
\<close>

definition SetGeminiYoloMode ::
  "Instance \<Rightarrow> bool \<Rightarrow> tmux_server \<Rightarrow> adapter_error option \<times> Instance \<times> tmux_server"
where
  "SetGeminiYoloMode inst enabled tm =
     (let inst' = inst\<lparr>GeminiYoloMode := Some enabled\<rparr>;
          (err, tm') = SetEnvironment tm (tmuxSession inst) ''GEMINI_YOLO_MODE''
                         (if enabled then ''true'' else ''false'')
      in (err, inst', tm'))"

text \<open>
  Modelled from the spec: the mode detection of \<open>UpdateGeminiSession\<close> of
  internal/session/instance.go, not among the sources (section 4.2, \<open>Refresh\<close>): when
  the flag is unset it calls \<open>GetEnv\<close>; the value \<open>"true"\<close> sets the flag to true,
  anything else, absence and errors included, sets it to false.
\<close>

definition UpdateGeminiSession :: "Instance \<Rightarrow> tmux_server \<Rightarrow> Instance" where
  "UpdateGeminiSession inst tm =
     (if GeminiYoloMode inst = None
      then inst\<lparr>GeminiYoloMode :=
                  Some (GetEnvironment tm (tmuxSession inst) ''GEMINI_YOLO_MODE'' = Some ''true'')\<rparr>
      else inst)"

section \<open>Notions used in the statements\<close>

text \<open>The reads of a file and the decodings of a transcript in a trace, in order.\<close>

definition reads_or_parses :: "io_event list \<Rightarrow> io_event list" where
  "reads_or_parses tr = filter (\<lambda>e. is_read e \<or> is_parse e) tr"

text \<open>The turns of the agent: the messages whose type is \<open>gemini\<close> (line 386).\<close>

definition agent_turns :: "message list \<Rightarrow> message list" where
  "agent_turns msgs = filter (\<lambda>m. msg_Type m = ''gemini'') msgs"

text \<open>
  The pattern that \<open>UpdateGeminiAnalyticsFromDisk\<close> builds for the expected sessions
  directory (lines 311 to 314): the first 8 bytes of the identifier between
  \<open>session-*-\<close> and \<open>.json\<close>.
\<close>

definition expected_pattern :: "sys \<Rightarrow> string \<Rightarrow> string \<Rightarrow> string" where
  "expected_pattern s projectPath sessionID =
     filepath_Join s [fst (GetGeminiSessionsDir s projectPath),
                      ''session-*-'' @ take 8 sessionID @ ''.json'']"

text \<open>
  The pattern that \<open>findGeminiSessionInAllProjects\<close> builds for a directory entry
  (lines 272, 281, 291 and 292).
\<close>

definition project_pattern :: "sys \<Rightarrow> string \<Rightarrow> DirEntry \<Rightarrow> string" where
  "project_pattern s sessionID entry =
     filepath_Join s
       [filepath_Join s [filepath_Join s [fst (GetGeminiConfigDir s), ''tmp''], Name entry, ''chats''],
        ''session-*-'' @ take 8 sessionID @ ''.json'']"

text \<open>
  The candidates of the project directories, in the order of the entries: for every
  entry that is a directory, the file that \<open>findNewestFile\<close> returns for its
  pattern, if it returns one.
\<close>

definition candidates :: "sys \<Rightarrow> string \<Rightarrow> string \<Rightarrow> DirEntry list \<Rightarrow> string list" where
  "candidates s tmpDir targetPattern entries =
     filter (\<lambda>f. f \<noteq> '''')
       (map (\<lambda>e. fst (findNewestFile s
                        (filepath_Join s [filepath_Join s [tmpDir, Name e, ''chats''],
                                           targetPattern])))
          (filter IsDir entries))"

section \<open>A small world to run the code in\<close>

text \<open>
  One configuration directory \<open>/g\<close> with two project directories \<open>h1\<close> and \<open>h2\<close> (and a
  plain file beside them); the project \<open>/proj\<close> hashes to \<open>h1\<close>. Session \<open>abcdefgh\<close>
  has two transcripts in \<open>h1\<close> and a newer file of the same pattern in \<open>h2\<close>,
  session \<open>12345678\<close> has its transcript in \<open>h2\<close> only,
  the transcript of \<open>deadbeef\<close> is not JSON and that of \<open>unreadab\<close> cannot be read.
\<close>

definition example_Join :: "string list \<Rightarrow> string" where
  "example_Join elems =
     (case filter (\<lambda>e. e \<noteq> '''') elems of
        [] \<Rightarrow> ''''
      | e # es \<Rightarrow> foldl (\<lambda>a b. a @ ''/'' @ b) e es)"

definition example_messages :: "message list" where
  "example_messages =
     [\<lparr>msg_Type = ''user'', msg_Model = '''', msg_Tokens_Input = 1000, msg_Tokens_Output = 1000\<rparr>,
      \<lparr>msg_Type = ''gemini'', msg_Model = ''gemini-2.5-pro'',
        msg_Tokens_Input = 10, msg_Tokens_Output = 1\<rparr>,
      \<lparr>msg_Type = ''user'', msg_Model = ''ignored'', msg_Tokens_Input = 5, msg_Tokens_Output = 5\<rparr>,
      \<lparr>msg_Type = ''gemini'', msg_Model = ''gemini-2.5-flash'',
        msg_Tokens_Input = 20, msg_Tokens_Output = 2\<rparr>,
      \<lparr>msg_Type = ''gemini'', msg_Model = '''', msg_Tokens_Input = 30, msg_Tokens_Output = 3\<rparr>,
      \<lparr>msg_Type = ''info'', msg_Model = '''', msg_Tokens_Input = 7, msg_Tokens_Output = 7\<rparr>]"

definition example_session :: session where
  "example_session =
     \<lparr>SessionID = ''abcdefgh-1111'', session_StartTime = ''2025-01-02T10:00:00Z'',
      session_LastUpdated = ''2025-01-02T10:30:00Z'', Messages = example_messages\<rparr>"

definition example_session_no_agent :: session where
  "example_session_no_agent =
     \<lparr>SessionID = ''12345678-2222'', session_StartTime = ''2025-01-03T10:00:00Z'',
      session_LastUpdated = '''',
      Messages = [\<lparr>msg_Type = ''user'', msg_Model = '''',
                   msg_Tokens_Input = 4, msg_Tokens_Output = 0\<rparr>]\<rparr>"

definition example_sys :: sys where
  "example_sys =
     \<lparr>filepath_Glob = (\<lambda>p.
        if p = ''/g/tmp/h1/chats/session-*-abcdefgh.json''
        then [''/g/tmp/h1/chats/session-a-abcdefgh.json'',
              ''/g/tmp/h1/chats/session-b-abcdefgh.json'']
        else if p = ''/g/tmp/h2/chats/session-*-abcdefgh.json''
        then [''/g/tmp/h2/chats/session-z-abcdefgh.json'']
        else if p = ''/g/tmp/h2/chats/session-*-12345678.json''
        then [''/g/tmp/h2/chats/session-c-12345678.json'']
        else if p = ''/g/tmp/h1/chats/session-*-deadbeef.json''
        then [''/g/tmp/h1/chats/session-d-deadbeef.json'']
        else if p = ''/g/tmp/h1/chats/session-*-unreadab.json''
        then [''/g/tmp/h1/chats/session-e-unreadab.json'']
        else []),
      os_Stat = (\<lambda>f.
        if f = ''/g/tmp/h1/chats/session-a-abcdefgh.json'' then Some 100
        else if f = ''/g/tmp/h1/chats/session-b-abcdefgh.json'' then Some 200
        else if f = ''/g/tmp/h2/chats/session-c-12345678.json'' then Some 300
        else if f = ''/g/tmp/h1/chats/session-d-deadbeef.json'' then Some 400
        else if f = ''/g/tmp/h1/chats/session-e-unreadab.json'' then Some 500
        else if f = ''/g/tmp/h2/chats/session-z-abcdefgh.json'' then Some 900
        else None),
      os_ReadDir = (\<lambda>d.
        if d = ''/g/tmp''
        then Some [\<lparr>Name = ''h1'', IsDir = True\<rparr>, \<lparr>Name = ''installation_id'', IsDir = False\<rparr>,
                   \<lparr>Name = ''h2'', IsDir = True\<rparr>]
        else None),
      os_ReadFile = (\<lambda>f.
        if f = ''/g/tmp/h1/chats/session-a-abcdefgh.json'' then Some ''old''
        else if f = ''/g/tmp/h1/chats/session-b-abcdefgh.json'' then Some ''three agent turns''
        else if f = ''/g/tmp/h2/chats/session-c-12345678.json'' then Some ''no agent turn''
        else if f = ''/g/tmp/h1/chats/session-d-deadbeef.json'' then Some ''{ sessionId: ''
        else None),
      filepath_Abs = (\<lambda>p. Some p),
      filepath_EvalSymlinks = (\<lambda>p. Some p),
      os_UserHomeDir = ''/home/u'',
      filepath_Join = example_Join,
      sha256_hex = (\<lambda>p. if p = ''/proj'' then ''h1'' else ''h0''),
      json_Unmarshal = (\<lambda>d.
        if d = ''three agent turns'' then Some example_session
        else if d = ''no agent turn'' then Some example_session_no_agent
        else None),
      time_Parse = (\<lambda>layout v.
        if layout = ''2006-01-02T15:04:05Z07:00'' \<and> v = ''2025-01-02T10:00:00Z'' then 1000
        else if layout = ''2006-01-02T15:04:05Z07:00'' \<and> v = ''2025-01-02T10:30:00Z'' then 2800
        else if layout = ''2006-01-02T15:04:05Z07:00'' \<and> v = ''2025-01-03T10:00:00Z'' then 9000
        else 0),
      geminiConfigDirOverride = ''/g''\<rparr>"

definition example_analytics :: GeminiSessionAnalytics where
  "example_analytics =
     \<lparr>InputTokens = 7, OutputTokens = 8, CurrentContextTokens = 500, TotalTurns = 9,
      Model = ''gemini-1.5-pro'', StartTime = 11, LastActive = 12, Duration = 1,
      LastFileModTime = 0\<rparr>"

text \<open>
  An environment with the override of the model list set, and a tmux server with one
  live session to which an instance with an unset flag is attached.
\<close>

definition example_models_env :: models_env where
  "example_models_env =
     \<lparr>os_Getenv = (\<lambda>k. if k = ''GEMINI_MODELS_OVERRIDE'' then ''m1, m2,m1'' else ''''),
      time_Now = 0,
      http_Get = (\<lambda>url. None),
      json_Unmarshal_models = (\<lambda>b. None)\<rparr>"

definition example_models_cache :: models_cache where
  "example_models_cache = \<lparr>geminiModelsCache = [], geminiModelsLast = 0\<rparr>"

definition example_tmux :: tmux_server where
  "example_tmux = [''agentdeck_yolo-sync-test'' \<mapsto> [''TERM'' \<mapsto> ''xterm'']]"

definition example_instance :: Instance where
  "example_instance = \<lparr>tmuxSession = ''agentdeck_yolo-sync-test'', GeminiYoloMode = None\<rparr>"

section \<open>Properties of the locator\<close>

lemma findNewestFile_loop_trace:
  "findNewestFile_loop stat fls nf nt = (r, tr, evs) \<Longrightarrow> evs = map EvStat fls"
  by (induction fls arbitrary: nf nt r tr evs)
     (auto split: option.splits prod.splits if_splits)

text \<open>
  What the loop returns: either nothing in \<open>files\<close> beat the starting time, or the
  result is the first file of \<open>files\<close> that carries the latest time.
\<close>

lemma findNewestFile_loop_result:
  "findNewestFile_loop stat fls nf nt = (r, tr, evs) \<Longrightarrow>
     (r = nf \<and> tr = nt \<and> (\<forall>g \<in> set fls. \<forall>u. stat g = Some u \<longrightarrow> u \<le> nt)) \<or>
     (\<exists>pre post. fls = pre @ r # post \<and> stat r = Some tr \<and> nt < tr \<and>
        (\<forall>g \<in> set pre. \<forall>u. stat g = Some u \<longrightarrow> u < tr) \<and>
        (\<forall>g \<in> set post. \<forall>u. stat g = Some u \<longrightarrow> u \<le> tr))"
proof (induction fls arbitrary: nf nt r tr evs)
  case Nil
  then show ?case by simp
next
  case (Cons fl fls)
  show ?case
  proof (cases "stat fl")
    case None
    with Cons.prems obtain evs' where
      rec: "findNewestFile_loop stat fls nf nt = (r, tr, evs')"
      by (auto split: prod.splits)
    from Cons.IH [OF rec] show ?thesis
    proof
      assume "r = nf \<and> tr = nt \<and> (\<forall>g \<in> set fls. \<forall>u. stat g = Some u \<longrightarrow> u \<le> nt)"
      with None show ?thesis by auto
    next
      assume "\<exists>pre post. fls = pre @ r # post \<and> stat r = Some tr \<and> nt < tr \<and>
        (\<forall>g \<in> set pre. \<forall>u. stat g = Some u \<longrightarrow> u < tr) \<and>
        (\<forall>g \<in> set post. \<forall>u. stat g = Some u \<longrightarrow> u \<le> tr)"
      then obtain pre post where p: "fls = pre @ r # post" "stat r = Some tr" "nt < tr"
        "\<forall>g \<in> set pre. \<forall>u. stat g = Some u \<longrightarrow> u < tr"
        "\<forall>g \<in> set post. \<forall>u. stat g = Some u \<longrightarrow> u \<le> tr"
        by blast
      have "fl # fls = (fl # pre) @ r # post" using p(1) by simp
      moreover have "\<forall>g \<in> set (fl # pre). \<forall>u. stat g = Some u \<longrightarrow> u < tr"
        using p(4) None by auto
      ultimately show ?thesis using p(2,3,5) by blast
    qed
  next
    case (Some m)
    show ?thesis
    proof (cases "nt < m")
      case True
      with Some Cons.prems obtain evs' where
        rec: "findNewestFile_loop stat fls fl m = (r, tr, evs')"
        by (auto split: prod.splits)
      from Cons.IH [OF rec] show ?thesis
      proof
        assume a: "r = fl \<and> tr = m \<and> (\<forall>g \<in> set fls. \<forall>u. stat g = Some u \<longrightarrow> u \<le> m)"
        have "fl # fls = [] @ r # fls" using a by simp
        moreover have "stat r = Some tr" "nt < tr" using a Some True by auto
        moreover have "\<forall>g \<in> set fls. \<forall>u. stat g = Some u \<longrightarrow> u \<le> tr" using a by auto
        ultimately show ?thesis by (metis empty_iff list.set(1))
      next
        assume "\<exists>pre post. fls = pre @ r # post \<and> stat r = Some tr \<and> m < tr \<and>
          (\<forall>g \<in> set pre. \<forall>u. stat g = Some u \<longrightarrow> u < tr) \<and>
          (\<forall>g \<in> set post. \<forall>u. stat g = Some u \<longrightarrow> u \<le> tr)"
        then obtain pre post where p: "fls = pre @ r # post" "stat r = Some tr" "m < tr"
          "\<forall>g \<in> set pre. \<forall>u. stat g = Some u \<longrightarrow> u < tr"
          "\<forall>g \<in> set post. \<forall>u. stat g = Some u \<longrightarrow> u \<le> tr"
          by blast
        have "fl # fls = (fl # pre) @ r # post" using p(1) by simp
        moreover have "\<forall>g \<in> set (fl # pre). \<forall>u. stat g = Some u \<longrightarrow> u < tr"
          using p(3,4) Some by auto
        moreover have "nt < tr" using True p(3) by simp
        ultimately show ?thesis using p(2,5) by blast
      qed
    next
      case False
      with Some Cons.prems obtain evs' where
        rec: "findNewestFile_loop stat fls nf nt = (r, tr, evs')"
        by (auto split: prod.splits)
      from Cons.IH [OF rec] show ?thesis
      proof
        assume "r = nf \<and> tr = nt \<and> (\<forall>g \<in> set fls. \<forall>u. stat g = Some u \<longrightarrow> u \<le> nt)"
        with Some False show ?thesis by auto
      next
        assume "\<exists>pre post. fls = pre @ r # post \<and> stat r = Some tr \<and> nt < tr \<and>
          (\<forall>g \<in> set pre. \<forall>u. stat g = Some u \<longrightarrow> u < tr) \<and>
          (\<forall>g \<in> set post. \<forall>u. stat g = Some u \<longrightarrow> u \<le> tr)"
        then obtain pre post where p: "fls = pre @ r # post" "stat r = Some tr" "nt < tr"
          "\<forall>g \<in> set pre. \<forall>u. stat g = Some u \<longrightarrow> u < tr"
          "\<forall>g \<in> set post. \<forall>u. stat g = Some u \<longrightarrow> u \<le> tr"
          by blast
        have "fl # fls = (fl # pre) @ r # post" using p(1) by simp
        moreover have "\<forall>g \<in> set (fl # pre). \<forall>u. stat g = Some u \<longrightarrow> u < tr"
          using p(3,4) Some False by auto
        ultimately show ?thesis using p(2,3,5) by blast
      qed
    qed
  qed
qed

section \<open>The newest matching file\<close>

text \<open>
  What \<open>findNewestFile\<close> returns for a pattern: the empty string when nothing
  matches; with several matches, of which at least one has a modification time that
  \<open>os.Stat\<close> can read and that lies after Go's zero Time, the first match in the
  order of \<open>filepath.Glob\<close> among those with the latest time.
\<close>

lemma findNewestFile_newest:
  "(filepath_Glob s pattern = [] \<longrightarrow> fst (findNewestFile s pattern) = '''') \<and>
   (1 < length (filepath_Glob s pattern) \<and>
    (\<exists>g \<in> set (filepath_Glob s pattern). \<exists>u. os_Stat s g = Some u \<and> 0 < u) \<longrightarrow>
      (\<exists>pre post tr.
         filepath_Glob s pattern = pre @ fst (findNewestFile s pattern) # post \<and>
         os_Stat s (fst (findNewestFile s pattern)) = Some tr \<and>
         (\<forall>g \<in> set pre. \<forall>u. os_Stat s g = Some u \<longrightarrow> u < tr) \<and>
         (\<forall>g \<in> set post. \<forall>u. os_Stat s g = Some u \<longrightarrow> u \<le> tr)))"
proof (intro conjI impI)
  assume "filepath_Glob s pattern = []"
  then show "fst (findNewestFile s pattern) = ''''"
    by (simp add: findNewestFile_def)
next
  assume a: "1 < length (filepath_Glob s pattern) \<and>
    (\<exists>g \<in> set (filepath_Glob s pattern). \<exists>u. os_Stat s g = Some u \<and> 0 < u)"
  obtain r tr evs where
    loop: "findNewestFile_loop (os_Stat s) (filepath_Glob s pattern) '''' 0 = (r, tr, evs)"
    by (metis prod_cases3)
  from a have "filepath_Glob s pattern \<noteq> []" "length (filepath_Glob s pattern) \<noteq> 1"
    by auto
  with loop have r: "fst (findNewestFile s pattern) = r"
    by (simp add: findNewestFile_def Let_def)
  from findNewestFile_loop_result [OF loop] a
  have "\<exists>pre post. filepath_Glob s pattern = pre @ r # post \<and> os_Stat s r = Some tr \<and> 0 < tr \<and>
        (\<forall>g \<in> set pre. \<forall>u. os_Stat s g = Some u \<longrightarrow> u < tr) \<and>
        (\<forall>g \<in> set post. \<forall>u. os_Stat s g = Some u \<longrightarrow> u \<le> tr)"
    by fastforce
  with r show "\<exists>pre post tr.
         filepath_Glob s pattern = pre @ fst (findNewestFile s pattern) # post \<and>
         os_Stat s (fst (findNewestFile s pattern)) = Some tr \<and>
         (\<forall>g \<in> set pre. \<forall>u. os_Stat s g = Some u \<longrightarrow> u < tr) \<and>
         (\<forall>g \<in> set post. \<forall>u. os_Stat s g = Some u \<longrightarrow> u \<le> tr)"
    by blast
qed

section \<open>Validation of the session identifier\<close>

text \<open>
  Claim C9. A session identifier of fewer than 8 bytes (the empty one included) makes
  \<open>UpdateGeminiAnalyticsFromDisk\<close> return the validation error with an empty trace,
  that is before any call to the file system, and the snapshot is the one passed in.
\<close>

theorem invalid_session_id_rejected_before_io:
  "length sessionID < 8 \<Longrightarrow>
     UpdateGeminiAnalyticsFromDisk s projectPath sessionID analytics
       = (Some InvalidSessionID, analytics, [])"
  by (simp add: UpdateGeminiAnalyticsFromDisk_def)

theorem invalid_session_id_rejected_before_io_witness:
  "length ''abcdefg'' < 8 \<and>
   UpdateGeminiAnalyticsFromDisk example_sys ''/proj'' ''abcdefg'' example_analytics
     = (Some InvalidSessionID, example_analytics, []) \<and>
   UpdateGeminiAnalyticsFromDisk example_sys ''/proj'' '''' example_analytics
     = (Some InvalidSessionID, example_analytics, [])"
  using invalid_session_id_rejected_before_io [of "''abcdefg''" example_sys "''/proj''" example_analytics]
    invalid_session_id_rejected_before_io [of "''''" example_sys "''/proj''" example_analytics]
  by simp

section \<open>The trace of a call and its two stages\<close>

lemma reads_or_parses_simps [simp]:
  "reads_or_parses [] = []"
  "reads_or_parses (tr @ tr') = reads_or_parses tr @ reads_or_parses tr'"
  "reads_or_parses (EvGlob p # tr) = reads_or_parses tr"
  "reads_or_parses (EvStat p # tr) = reads_or_parses tr"
  "reads_or_parses (EvReadDir p # tr) = reads_or_parses tr"
  "reads_or_parses (EvAbs p # tr) = reads_or_parses tr"
  "reads_or_parses (EvEvalSymlinks p # tr) = reads_or_parses tr"
  "reads_or_parses (EvUserHomeDir # tr) = reads_or_parses tr"
  "reads_or_parses (EvReadFile p # tr) = EvReadFile p # reads_or_parses tr"
  "reads_or_parses (EvUnmarshal p # tr) = EvUnmarshal p # reads_or_parses tr"
  by (simp_all add: reads_or_parses_def)

lemma reads_or_parses_map_EvStat [simp]: "reads_or_parses (map EvStat fls) = []"
  by (induction fls) simp_all

lemma findNewestFile_quiet [simp]: "reads_or_parses (snd (findNewestFile s pattern)) = []"
proof -
  obtain r tr evs where
    loop: "findNewestFile_loop (os_Stat s) (filepath_Glob s pattern) '''' 0 = (r, tr, evs)"
    by (metis prod_cases3)
  from findNewestFile_loop_trace [OF loop] loop show ?thesis
    by (simp add: findNewestFile_def Let_def)
qed

lemma GetGeminiConfigDir_quiet [simp]: "reads_or_parses (snd (GetGeminiConfigDir s)) = []"
  by (simp add: GetGeminiConfigDir_def)

lemma HashProjectPath_quiet [simp]: "reads_or_parses (snd (HashProjectPath s p)) = []"
  by (simp add: HashProjectPath_def Let_def split: option.splits)

lemma GetGeminiSessionsDir_quiet [simp]: "reads_or_parses (snd (GetGeminiSessionsDir s p)) = []"
  by (simp add: GetGeminiSessionsDir_def Let_def split_def)

lemma findGeminiSessionInAllProjects_body_quiet [simp]:
  "reads_or_parses (snd (snd (findGeminiSessionInAllProjects_body s d tp e nf nt))) = []"
  by (simp add: findGeminiSessionInAllProjects_body_def Let_def split_def split: option.splits)

lemma findGeminiSessionInAllProjects_loop_quiet [simp]:
  "reads_or_parses (snd (snd (findGeminiSessionInAllProjects_loop s d tp es nf nt))) = []"
  by (induction es arbitrary: nf nt) (simp_all add: split_def Let_def)

lemma findGeminiSessionInAllProjects_quiet [simp]:
  "reads_or_parses (snd (findGeminiSessionInAllProjects s sid)) = []"
  by (simp add: findGeminiSessionInAllProjects_def Let_def split_def split: option.splits)

lemma locateSessionFile_quiet [simp]:
  "reads_or_parses (snd (locateSessionFile s pp sid)) = []"
  by (simp add: locateSessionFile_def Let_def split_def)

lemma not_in_quiet: "reads_or_parses tr = [] \<Longrightarrow> EvUnmarshal d \<notin> set tr"
  by (auto simp: reads_or_parses_def filter_empty_conv)

text \<open>The function in terms of its two stages.\<close>

lemma UpdateGeminiAnalyticsFromDisk_stages:
  "8 \<le> length sid \<Longrightarrow>
   UpdateGeminiAnalyticsFromDisk s pp sid a =
     (if fst (locateSessionFile s pp sid) = ''''
      then (Some SessionFileNotFound, a, snd (locateSessionFile s pp sid))
      else (fst (refreshFromFile s (fst (locateSessionFile s pp sid)) a),
            fst (snd (refreshFromFile s (fst (locateSessionFile s pp sid)) a)),
            snd (locateSessionFile s pp sid)
              @ snd (snd (refreshFromFile s (fst (locateSessionFile s pp sid)) a))))"
  by (auto simp: UpdateGeminiAnalyticsFromDisk_def Let_def split_def)

lemma UpdateGeminiAnalyticsFromDisk_parsed:
  assumes run: "UpdateGeminiAnalyticsFromDisk s pp sid a = (err, a', tr)"
    and ev: "EvUnmarshal d \<in> set tr"
    and dec: "json_Unmarshal s d = Some sess"
  shows "err = None \<and> a' = applySession s (os_Stat s (fst (locateSessionFile s pp sid))) sess a"
proof -
  have len: "8 \<le> length sid"
  proof (rule ccontr)
    assume "\<not> 8 \<le> length sid"
    with run have "tr = []" by (auto simp: UpdateGeminiAnalyticsFromDisk_def)
    with ev show False by simp
  qed
  let ?f = "fst (locateSessionFile s pp sid)"
  let ?tr1 = "snd (locateSessionFile s pp sid)"
  have q: "EvUnmarshal d \<notin> set ?tr1"
    by (rule not_in_quiet) simp
  have found: "?f \<noteq> ''''"
  proof
    assume "?f = ''''"
    with run len have "tr = ?tr1" by (simp add: UpdateGeminiAnalyticsFromDisk_stages)
    with ev q show False by simp
  qed
  from run len found have
    r: "err = fst (refreshFromFile s ?f a)" "a' = fst (snd (refreshFromFile s ?f a))"
       "tr = ?tr1 @ snd (snd (refreshFromFile s ?f a))"
    by (simp_all add: UpdateGeminiAnalyticsFromDisk_stages)
  from r(3) ev q have "EvUnmarshal d \<in> set (snd (snd (refreshFromFile s ?f a)))" by simp
  with dec r(1,2) show ?thesis
    by (auto simp: refreshFromFile_def Let_def split: if_splits option.splits)
qed

section \<open>Aggregation of the turns\<close>

lemma accumulateMessages_agent_only:
  "accumulateMessages msgs a = accumulateMessages (agent_turns msgs) a"
  by (induction msgs arbitrary: a) (simp_all add: agent_turns_def)

lemma accumulateMessages_InputTokens:
  "InputTokens (accumulateMessages msgs a)
     = InputTokens a + sum_list (map msg_Tokens_Input (agent_turns msgs))"
  by (induction msgs arbitrary: a) (simp_all add: agent_turns_def Let_def)

lemma accumulateMessages_OutputTokens:
  "OutputTokens (accumulateMessages msgs a)
     = OutputTokens a + sum_list (map msg_Tokens_Output (agent_turns msgs))"
  by (induction msgs arbitrary: a) (simp_all add: agent_turns_def Let_def)

lemma accumulateMessages_TotalTurns:
  "TotalTurns (accumulateMessages msgs a) = TotalTurns a + of_nat (length (agent_turns msgs))"
  by (induction msgs arbitrary: a) (simp_all add: agent_turns_def Let_def)

lemma accumulateMessages_CurrentContextTokens:
  "CurrentContextTokens (accumulateMessages msgs a)
     = (if agent_turns msgs = [] then CurrentContextTokens a
        else msg_Tokens_Input (last (agent_turns msgs)))"
  by (induction msgs arbitrary: a) (simp_all add: agent_turns_def Let_def)

lemma accumulateMessages_Model:
  "Model (accumulateMessages msgs a)
     = (if filter (\<lambda>m. msg_Model m \<noteq> '''') (agent_turns msgs) = [] then Model a
        else msg_Model (last (filter (\<lambda>m. msg_Model m \<noteq> '''') (agent_turns msgs))))"
  by (induction msgs arbitrary: a) (simp_all add: agent_turns_def Let_def)

lemma accumulateMessages_frame:
  "LastFileModTime (accumulateMessages msgs a) = LastFileModTime a"
  "StartTime (accumulateMessages msgs a) = StartTime a"
  "LastActive (accumulateMessages msgs a) = LastActive a"
  "Duration (accumulateMessages msgs a) = Duration a"
  "GeminiSessionAnalytics.more (accumulateMessages msgs a) = GeminiSessionAnalytics.more a"
  by (induction msgs arbitrary: a) (simp_all add: Let_def)

lemma applySession_counters:
  "InputTokens (applySession s info sess a)
     = sum_list (map msg_Tokens_Input (agent_turns (Messages sess)))"
  "OutputTokens (applySession s info sess a)
     = sum_list (map msg_Tokens_Output (agent_turns (Messages sess)))"
  "TotalTurns (applySession s info sess a) = of_nat (length (agent_turns (Messages sess)))"
  by (simp_all add: applySession_def Let_def accumulateMessages_InputTokens
      accumulateMessages_OutputTokens accumulateMessages_TotalTurns split: option.splits)

lemma applySession_Model:
  "Model (applySession s info sess a)
     = (if filter (\<lambda>m. msg_Model m \<noteq> '''') (agent_turns (Messages sess)) = [] then ''''
        else msg_Model (last (filter (\<lambda>m. msg_Model m \<noteq> '''') (agent_turns (Messages sess)))))"
  by (simp add: applySession_def Let_def accumulateMessages_Model split: option.splits)

lemma applySession_CurrentContextTokens:
  "CurrentContextTokens (applySession s info sess a)
     = (if agent_turns (Messages sess) = [] then CurrentContextTokens a
        else msg_Tokens_Input (last (agent_turns (Messages sess))))"
  by (simp add: applySession_def Let_def accumulateMessages_CurrentContextTokens
      split: option.splits)

lemma applySession_LastFileModTime:
  "LastFileModTime (applySession s info sess a)
     = (case info of Some t \<Rightarrow> t | None \<Rightarrow> LastFileModTime a)"
  by (simp add: applySession_def Let_def accumulateMessages_frame split: option.splits)

text \<open>
  Claim C3. A refresh that returns \<open>nil\<close> after decoding a transcript whose agent turns
  (type \<open>gemini\<close>) are exactly three, with input tokens 10, 20, 30 and output tokens
  1, 2, 3 in this order, leaves \<open>InputTokens = 60\<close>, \<open>OutputTokens = 6\<close>,
  \<open>TotalTurns = 3\<close> and \<open>CurrentContextTokens = 30\<close>, whatever other turns the
  transcript holds and whatever the snapshot held before; \<open>Model\<close> is the model name of
  the last agent turn that has one (empty when none has).
\<close>

theorem three_agent_turns_aggregate:
  assumes "UpdateGeminiAnalyticsFromDisk s projectPath sessionID analytics = (None, analytics', tr)"
    and "EvUnmarshal data \<in> set tr"
    and "json_Unmarshal s data = Some sess"
    and "agent_turns (Messages sess) = [g1, g2, g3]"
    and "msg_Tokens_Input g1 = 10" "msg_Tokens_Input g2 = 20" "msg_Tokens_Input g3 = 30"
    and "msg_Tokens_Output g1 = 1" "msg_Tokens_Output g2 = 2" "msg_Tokens_Output g3 = 3"
  shows "InputTokens analytics' = 60 \<and> OutputTokens analytics' = 6 \<and>
         TotalTurns analytics' = 3 \<and> CurrentContextTokens analytics' = 30 \<and>
         Model analytics' =
           (if filter (\<lambda>m. msg_Model m \<noteq> '''') [g1, g2, g3] = [] then ''''
            else msg_Model (last (filter (\<lambda>m. msg_Model m \<noteq> '''') [g1, g2, g3])))"
proof -
  from UpdateGeminiAnalyticsFromDisk_parsed [OF assms(1,2,3)] obtain info where
    a': "analytics' = applySession s info sess analytics"
    by blast
  have "InputTokens analytics' = 60"
    unfolding a' applySession_counters assms(4) using assms(5-7) by simp
  moreover have "OutputTokens analytics' = 6"
    unfolding a' applySession_counters assms(4) using assms(8-10) by simp
  moreover have "TotalTurns analytics' = 3"
    unfolding a' applySession_counters assms(4) by simp
  moreover have "CurrentContextTokens analytics' = 30"
    unfolding a' applySession_CurrentContextTokens assms(4) using assms(7) by simp
  moreover have "Model analytics' =
           (if filter (\<lambda>m. msg_Model m \<noteq> '''') [g1, g2, g3] = [] then ''''
            else msg_Model (last (filter (\<lambda>m. msg_Model m \<noteq> '''') [g1, g2, g3])))"
    unfolding a' applySession_Model assms(4) by (rule refl)
  ultimately show ?thesis by blast
qed

lemma example_run_abcdefgh:
  "UpdateGeminiAnalyticsFromDisk example_sys ''/proj'' ''abcdefgh-1111'' example_analytics
     = (None,
        \<lparr>InputTokens = 60, OutputTokens = 6, CurrentContextTokens = 30, TotalTurns = 3,
         Model = ''gemini-2.5-flash'', StartTime = 1000, LastActive = 2800, Duration = 1800,
         LastFileModTime = 200\<rparr>,
        [EvAbs ''/proj'', EvEvalSymlinks ''/proj'',
         EvGlob ''/g/tmp/h1/chats/session-*-abcdefgh.json'',
         EvStat ''/g/tmp/h1/chats/session-a-abcdefgh.json'',
         EvStat ''/g/tmp/h1/chats/session-b-abcdefgh.json'',
         EvStat ''/g/tmp/h1/chats/session-b-abcdefgh.json'',
         EvReadFile ''/g/tmp/h1/chats/session-b-abcdefgh.json'',
         EvUnmarshal ''three agent turns''])"
  by code_simp

lemma example_agent_turns:
  "agent_turns (Messages example_session) =
     [\<lparr>msg_Type = ''gemini'', msg_Model = ''gemini-2.5-pro'',
        msg_Tokens_Input = 10, msg_Tokens_Output = 1\<rparr>,
      \<lparr>msg_Type = ''gemini'', msg_Model = ''gemini-2.5-flash'',
        msg_Tokens_Input = 20, msg_Tokens_Output = 2\<rparr>,
      \<lparr>msg_Type = ''gemini'', msg_Model = '''', msg_Tokens_Input = 30, msg_Tokens_Output = 3\<rparr>]"
  by (simp add: agent_turns_def example_session_def example_messages_def)

theorem three_agent_turns_aggregate_witness:
  "UpdateGeminiAnalyticsFromDisk example_sys ''/proj'' ''abcdefgh-1111'' example_analytics
     = (None,
        \<lparr>InputTokens = 60, OutputTokens = 6, CurrentContextTokens = 30, TotalTurns = 3,
         Model = ''gemini-2.5-flash'', StartTime = 1000, LastActive = 2800, Duration = 1800,
         LastFileModTime = 200\<rparr>,
        [EvAbs ''/proj'', EvEvalSymlinks ''/proj'',
         EvGlob ''/g/tmp/h1/chats/session-*-abcdefgh.json'',
         EvStat ''/g/tmp/h1/chats/session-a-abcdefgh.json'',
         EvStat ''/g/tmp/h1/chats/session-b-abcdefgh.json'',
         EvStat ''/g/tmp/h1/chats/session-b-abcdefgh.json'',
         EvReadFile ''/g/tmp/h1/chats/session-b-abcdefgh.json'',
         EvUnmarshal ''three agent turns'']) \<and>
   json_Unmarshal example_sys ''three agent turns'' = Some example_session \<and>
   length (Messages example_session) = 6 \<and>
   length (agent_turns (Messages example_session)) = 3 \<and>
   InputTokens (fst (snd (UpdateGeminiAnalyticsFromDisk example_sys ''/proj'' ''abcdefgh-1111''
      example_analytics))) = 60 \<and>
   OutputTokens (fst (snd (UpdateGeminiAnalyticsFromDisk example_sys ''/proj'' ''abcdefgh-1111''
      example_analytics))) = 6 \<and>
   TotalTurns (fst (snd (UpdateGeminiAnalyticsFromDisk example_sys ''/proj'' ''abcdefgh-1111''
      example_analytics))) = 3 \<and>
   CurrentContextTokens (fst (snd (UpdateGeminiAnalyticsFromDisk example_sys ''/proj''
      ''abcdefgh-1111'' example_analytics))) = 30 \<and>
   Model (fst (snd (UpdateGeminiAnalyticsFromDisk example_sys ''/proj'' ''abcdefgh-1111''
      example_analytics))) = ''gemini-2.5-flash''"
proof -
  note run = example_run_abcdefgh
  have dec: "json_Unmarshal example_sys ''three agent turns'' = Some example_session"
    by (simp add: example_sys_def)
  have len: "length (Messages example_session) = 6"
    by (simp add: example_session_def example_messages_def)
  from three_agent_turns_aggregate [OF run _ dec example_agent_turns]
  have "InputTokens (fst (snd (UpdateGeminiAnalyticsFromDisk example_sys ''/proj''
          ''abcdefgh-1111'' example_analytics))) = 60 \<and>
        OutputTokens (fst (snd (UpdateGeminiAnalyticsFromDisk example_sys ''/proj''
          ''abcdefgh-1111'' example_analytics))) = 6 \<and>
        TotalTurns (fst (snd (UpdateGeminiAnalyticsFromDisk example_sys ''/proj''
          ''abcdefgh-1111'' example_analytics))) = 3 \<and>
        CurrentContextTokens (fst (snd (UpdateGeminiAnalyticsFromDisk example_sys ''/proj''
          ''abcdefgh-1111'' example_analytics))) = 30 \<and>
        Model (fst (snd (UpdateGeminiAnalyticsFromDisk example_sys ''/proj''
          ''abcdefgh-1111'' example_analytics))) = ''gemini-2.5-flash''"
    by (simp add: run)
  with run dec len example_agent_turns show ?thesis by simp
qed

section \<open>A transcript without agent turns\<close>

text \<open>
  Claim C10. After a refresh that returns \<open>nil\<close> having decoded a transcript without
  any agent turn, \<open>InputTokens\<close>, \<open>OutputTokens\<close> and \<open>TotalTurns\<close> are zero and
  \<open>Model\<close> is empty, while \<open>CurrentContextTokens\<close> still has the value it had before
  the call; it is written only when the transcript has an agent turn, and is then the
  input-token count of the last one.
\<close>

theorem context_tokens_kept_without_agent_turns:
  assumes "UpdateGeminiAnalyticsFromDisk s projectPath sessionID analytics = (None, analytics', tr)"
    and "EvUnmarshal data \<in> set tr"
    and "json_Unmarshal s data = Some sess"
  shows "(agent_turns (Messages sess) = [] \<longrightarrow>
            InputTokens analytics' = 0 \<and> OutputTokens analytics' = 0 \<and>
            TotalTurns analytics' = 0 \<and> Model analytics' = '''' \<and>
            CurrentContextTokens analytics' = CurrentContextTokens analytics) \<and>
         (agent_turns (Messages sess) \<noteq> [] \<longrightarrow>
            CurrentContextTokens analytics'
              = msg_Tokens_Input (last (agent_turns (Messages sess))))"
proof -
  from UpdateGeminiAnalyticsFromDisk_parsed [OF assms] obtain info where
    a': "analytics' = applySession s info sess analytics"
    by blast
  show ?thesis
    unfolding a' by (simp add: applySession_counters applySession_Model
        applySession_CurrentContextTokens)
qed

lemma example_run_12345678:
  "UpdateGeminiAnalyticsFromDisk example_sys ''/proj'' ''12345678-2222'' example_analytics
     = (None,
        \<lparr>InputTokens = 0, OutputTokens = 0, CurrentContextTokens = 500, TotalTurns = 0,
         Model = '''', StartTime = 9000, LastActive = 0, Duration = 1,
         LastFileModTime = 300\<rparr>,
        [EvAbs ''/proj'', EvEvalSymlinks ''/proj'',
         EvGlob ''/g/tmp/h1/chats/session-*-12345678.json'', EvReadDir ''/g/tmp'',
         EvGlob ''/g/tmp/h1/chats/session-*-12345678.json'',
         EvGlob ''/g/tmp/h2/chats/session-*-12345678.json'',
         EvStat ''/g/tmp/h2/chats/session-c-12345678.json'',
         EvStat ''/g/tmp/h2/chats/session-c-12345678.json'',
         EvReadFile ''/g/tmp/h2/chats/session-c-12345678.json'',
         EvUnmarshal ''no agent turn''])"
  by code_simp

theorem context_tokens_kept_without_agent_turns_witness:
  "UpdateGeminiAnalyticsFromDisk example_sys ''/proj'' ''12345678-2222'' example_analytics
     = (None,
        \<lparr>InputTokens = 0, OutputTokens = 0, CurrentContextTokens = 500, TotalTurns = 0,
         Model = '''', StartTime = 9000, LastActive = 0, Duration = 1,
         LastFileModTime = 300\<rparr>,
        [EvAbs ''/proj'', EvEvalSymlinks ''/proj'',
         EvGlob ''/g/tmp/h1/chats/session-*-12345678.json'', EvReadDir ''/g/tmp'',
         EvGlob ''/g/tmp/h1/chats/session-*-12345678.json'',
         EvGlob ''/g/tmp/h2/chats/session-*-12345678.json'',
         EvStat ''/g/tmp/h2/chats/session-c-12345678.json'',
         EvStat ''/g/tmp/h2/chats/session-c-12345678.json'',
         EvReadFile ''/g/tmp/h2/chats/session-c-12345678.json'',
         EvUnmarshal ''no agent turn'']) \<and>
   json_Unmarshal example_sys ''no agent turn'' = Some example_session_no_agent \<and>
   agent_turns (Messages example_session_no_agent) = [] \<and>
   CurrentContextTokens example_analytics = 500 \<and>
   CurrentContextTokens (fst (snd (UpdateGeminiAnalyticsFromDisk example_sys ''/proj''
      ''12345678-2222'' example_analytics))) = CurrentContextTokens example_analytics \<and>
   agent_turns (Messages example_session) \<noteq> [] \<and>
   CurrentContextTokens (fst (snd (UpdateGeminiAnalyticsFromDisk example_sys ''/proj''
      ''abcdefgh-1111'' example_analytics))) = 30"
proof -
  note run = example_run_12345678
  have dec: "json_Unmarshal example_sys ''no agent turn'' = Some example_session_no_agent"
    by (simp add: example_sys_def)
  have none: "agent_turns (Messages example_session_no_agent) = []"
    by (simp add: agent_turns_def example_session_no_agent_def)
  have dec3: "json_Unmarshal example_sys ''three agent turns'' = Some example_session"
    by (simp add: example_sys_def)
  from context_tokens_kept_without_agent_turns [OF run _ dec] none
  have kept: "CurrentContextTokens (fst (snd (UpdateGeminiAnalyticsFromDisk example_sys ''/proj''
      ''12345678-2222'' example_analytics))) = CurrentContextTokens example_analytics"
    by (simp add: run)
  from context_tokens_kept_without_agent_turns [OF example_run_abcdefgh _ dec3]
  have over: "CurrentContextTokens (fst (snd (UpdateGeminiAnalyticsFromDisk example_sys ''/proj''
      ''abcdefgh-1111'' example_analytics))) = 30"
    by (simp add: example_run_abcdefgh example_agent_turns)
  have "CurrentContextTokens example_analytics = 500"
    by (simp add: example_analytics_def)
  with run dec none kept over example_agent_turns show ?thesis by simp
qed

text \<open>
  Claim C4 says that after a successful reparse \<open>CurrentContextTokens\<close> depends on the
  transcript only. Here the same transcript (one user turn, no agent turn) is reparsed
  from two snapshots that differ in \<open>CurrentContextTokens\<close> alone: both calls return
  \<open>nil\<close> with the same trace, which contains the decoding, and the results still
  differ in that field (500 against 0).
\<close>

theorem prior_context_tokens_leak_into_reparse:
  "fst (UpdateGeminiAnalyticsFromDisk example_sys ''/proj'' ''12345678-2222''
          example_analytics) = None \<and>
   fst (UpdateGeminiAnalyticsFromDisk example_sys ''/proj'' ''12345678-2222''
          (example_analytics\<lparr>CurrentContextTokens := 0\<rparr>)) = None \<and>
   snd (snd (UpdateGeminiAnalyticsFromDisk example_sys ''/proj'' ''12345678-2222''
          example_analytics))
     = snd (snd (UpdateGeminiAnalyticsFromDisk example_sys ''/proj'' ''12345678-2222''
          (example_analytics\<lparr>CurrentContextTokens := 0\<rparr>))) \<and>
   EvUnmarshal ''no agent turn''
     \<in> set (snd (snd (UpdateGeminiAnalyticsFromDisk example_sys ''/proj'' ''12345678-2222''
          example_analytics))) \<and>
   CurrentContextTokens (fst (snd (UpdateGeminiAnalyticsFromDisk example_sys ''/proj''
      ''12345678-2222'' example_analytics))) = 500 \<and>
   CurrentContextTokens (fst (snd (UpdateGeminiAnalyticsFromDisk example_sys ''/proj''
      ''12345678-2222'' (example_analytics\<lparr>CurrentContextTokens := 0\<rparr>)))) = 0"
  by code_simp

section \<open>The modification-time gate\<close>

lemma quiet_no_parse: "reads_or_parses tr = [] \<Longrightarrow> filter is_parse tr = []"
  by (auto simp: reads_or_parses_def filter_empty_conv)

text \<open>The locator never looks at the contents of a file.\<close>

lemma findNewestFile_contents [simp]:
  "findNewestFile (s\<lparr>os_ReadFile := c\<rparr>) pattern = findNewestFile s pattern"
  by (simp add: findNewestFile_def Let_def split_def)

lemma findGeminiSessionInAllProjects_body_contents [simp]:
  "findGeminiSessionInAllProjects_body (s\<lparr>os_ReadFile := c\<rparr>) d tp e nf nt
     = findGeminiSessionInAllProjects_body s d tp e nf nt"
  by (simp add: findGeminiSessionInAllProjects_body_def Let_def split_def)

lemma findGeminiSessionInAllProjects_loop_contents [simp]:
  "findGeminiSessionInAllProjects_loop (s\<lparr>os_ReadFile := c\<rparr>) d tp es nf nt
     = findGeminiSessionInAllProjects_loop s d tp es nf nt"
  by (induction es arbitrary: nf nt) simp_all

lemma GetGeminiConfigDir_contents [simp]:
  "GetGeminiConfigDir (s\<lparr>os_ReadFile := c\<rparr>) = GetGeminiConfigDir s"
  by (simp add: GetGeminiConfigDir_def)

lemma HashProjectPath_contents [simp]:
  "HashProjectPath (s\<lparr>os_ReadFile := c\<rparr>) pp = HashProjectPath s pp"
  by (simp add: HashProjectPath_def Let_def cong: option.case_cong)

lemma GetGeminiSessionsDir_contents [simp]:
  "GetGeminiSessionsDir (s\<lparr>os_ReadFile := c\<rparr>) pp = GetGeminiSessionsDir s pp"
  by (simp add: GetGeminiSessionsDir_def Let_def split_def)

lemma findGeminiSessionInAllProjects_contents [simp]:
  "findGeminiSessionInAllProjects (s\<lparr>os_ReadFile := c\<rparr>) sid
     = findGeminiSessionInAllProjects s sid"
  by (simp add: findGeminiSessionInAllProjects_def Let_def split_def cong: option.case_cong)

lemma locateSessionFile_contents [simp]:
  "locateSessionFile (s\<lparr>os_ReadFile := c\<rparr>) pp sid = locateSessionFile s pp sid"
  by (simp add: locateSessionFile_def Let_def split_def)

lemma refreshFromFile_hit:
  "os_Stat s f = Some (LastFileModTime a) \<Longrightarrow> LastFileModTime a \<noteq> 0 \<Longrightarrow>
     refreshFromFile s f a = (None, a, [EvStat f])"
  by (simp add: refreshFromFile_def)

lemma refreshFromFile_miss:
  "\<not> (os_Stat s f = Some (LastFileModTime a) \<and> LastFileModTime a \<noteq> 0) \<Longrightarrow>
     refreshFromFile s f a =
       (case os_ReadFile s f of
          None \<Rightarrow> (Some ReadSessionFileFailed, a, [EvStat f, EvReadFile f])
        | Some data \<Rightarrow>
            (case json_Unmarshal s data of
               None \<Rightarrow> (Some ParseSessionFailed, a, [EvStat f, EvReadFile f, EvUnmarshal data])
             | Some sess \<Rightarrow>
                 (None, applySession s (os_Stat s f) sess a,
                  [EvStat f, EvReadFile f, EvUnmarshal data])))"
  by (auto simp: refreshFromFile_def Let_def)

text \<open>
  Claim C1. Let a first call return \<open>nil\<close> and record a modification time that is not
  the zero Time (the fingerprint after the call is non-zero and is not the one from
  before the call). A second call on the resulting snapshot, in a world where every
  file may have new contents but the names and modification times are as before,
  returns \<open>nil\<close> with the snapshot unchanged in every field; its trace is that of the
  locator followed by one \<open>os.Stat\<close>, so it holds no read and no decoding, and the
  traces of the two calls together hold exactly one decoding.
\<close>

theorem unchanged_mtime_skips_second_parse:
  assumes first: "UpdateGeminiAnalyticsFromDisk s projectPath sessionID analytics0
                    = (None, analytics1, tr1)"
    and recorded: "LastFileModTime analytics1 \<noteq> 0"
                  "LastFileModTime analytics1 \<noteq> LastFileModTime analytics0"
  shows "UpdateGeminiAnalyticsFromDisk (s\<lparr>os_ReadFile := contents\<rparr>) projectPath sessionID
           analytics1
         = (None, analytics1,
            snd (locateSessionFile s projectPath sessionID)
              @ [EvStat (fst (locateSessionFile s projectPath sessionID))]) \<and>
         reads_or_parses (snd (snd (UpdateGeminiAnalyticsFromDisk (s\<lparr>os_ReadFile := contents\<rparr>)
           projectPath sessionID analytics1))) = [] \<and>
         length (filter is_parse (tr1 @ snd (snd (UpdateGeminiAnalyticsFromDisk
           (s\<lparr>os_ReadFile := contents\<rparr>) projectPath sessionID analytics1)))) = 1"
proof -
  let ?f = "fst (locateSessionFile s projectPath sessionID)"
  let ?trl = "snd (locateSessionFile s projectPath sessionID)"
  let ?s' = "s\<lparr>os_ReadFile := contents\<rparr>"
  have len: "8 \<le> length sessionID"
    using first by (auto simp: UpdateGeminiAnalyticsFromDisk_def split: if_splits)
  have found: "?f \<noteq> ''''"
    using first len by (auto simp: UpdateGeminiAnalyticsFromDisk_stages split: if_splits)
  from first len found have
    r: "fst (refreshFromFile s ?f analytics0) = None"
       "analytics1 = fst (snd (refreshFromFile s ?f analytics0))"
       "tr1 = ?trl @ snd (snd (refreshFromFile s ?f analytics0))"
    by (simp_all add: UpdateGeminiAnalyticsFromDisk_stages)
  have miss: "\<not> (os_Stat s ?f = Some (LastFileModTime analytics0)
                 \<and> LastFileModTime analytics0 \<noteq> 0)"
  proof
    assume "os_Stat s ?f = Some (LastFileModTime analytics0) \<and> LastFileModTime analytics0 \<noteq> 0"
    then have "refreshFromFile s ?f analytics0 = (None, analytics0, [EvStat ?f])"
      by (simp add: refreshFromFile_hit)
    with r(2) recorded(2) show False by simp
  qed
  from r(1) obtain data sess where
    rd: "os_ReadFile s ?f = Some data" and dec: "json_Unmarshal s data = Some sess"
    unfolding refreshFromFile_miss [OF miss] by (auto split: option.splits)
  have a1: "analytics1 = applySession s (os_Stat s ?f) sess analytics0"
    and t2: "snd (snd (refreshFromFile s ?f analytics0))
               = [EvStat ?f, EvReadFile ?f, EvUnmarshal data]"
    using r(2) rd dec unfolding refreshFromFile_miss [OF miss] by simp_all
  have stat: "os_Stat s ?f = Some (LastFileModTime analytics1)"
    using recorded(2) unfolding a1 applySession_LastFileModTime
    by (cases "os_Stat s ?f") simp_all
  then have "os_Stat ?s' ?f = Some (LastFileModTime analytics1)" by simp
  from refreshFromFile_hit [OF this recorded(1)]
  have hit: "refreshFromFile ?s' ?f analytics1 = (None, analytics1, [EvStat ?f])" .
  have second: "UpdateGeminiAnalyticsFromDisk ?s' projectPath sessionID analytics1
                  = (None, analytics1, ?trl @ [EvStat ?f])"
    using len found hit by (simp add: UpdateGeminiAnalyticsFromDisk_stages)
  have quiet: "reads_or_parses ?trl = []" by simp
  have "filter is_parse (tr1 @ ?trl @ [EvStat ?f]) = [EvUnmarshal data]"
    unfolding r(3) t2 using quiet_no_parse [OF quiet] by simp
  with second quiet show ?thesis by simp
qed

lemma example_locate_abcdefgh:
  "locateSessionFile example_sys ''/proj'' ''abcdefgh-1111''
     = (''/g/tmp/h1/chats/session-b-abcdefgh.json'',
        [EvAbs ''/proj'', EvEvalSymlinks ''/proj'',
         EvGlob ''/g/tmp/h1/chats/session-*-abcdefgh.json'',
         EvStat ''/g/tmp/h1/chats/session-a-abcdefgh.json'',
         EvStat ''/g/tmp/h1/chats/session-b-abcdefgh.json''])"
  by code_simp

theorem unchanged_mtime_skips_second_parse_witness:
  "UpdateGeminiAnalyticsFromDisk example_sys ''/proj'' ''abcdefgh-1111'' example_analytics
     = (None,
        \<lparr>InputTokens = 60, OutputTokens = 6, CurrentContextTokens = 30, TotalTurns = 3,
         Model = ''gemini-2.5-flash'', StartTime = 1000, LastActive = 2800, Duration = 1800,
         LastFileModTime = 200\<rparr>,
        [EvAbs ''/proj'', EvEvalSymlinks ''/proj'',
         EvGlob ''/g/tmp/h1/chats/session-*-abcdefgh.json'',
         EvStat ''/g/tmp/h1/chats/session-a-abcdefgh.json'',
         EvStat ''/g/tmp/h1/chats/session-b-abcdefgh.json'',
         EvStat ''/g/tmp/h1/chats/session-b-abcdefgh.json'',
         EvReadFile ''/g/tmp/h1/chats/session-b-abcdefgh.json'',
         EvUnmarshal ''three agent turns'']) \<and>
   LastFileModTime example_analytics = 0 \<and>
   UpdateGeminiAnalyticsFromDisk (example_sys\<lparr>os_ReadFile := (\<lambda>f. Some ''rewritten'')\<rparr>)
       ''/proj'' ''abcdefgh-1111''
       \<lparr>InputTokens = 60, OutputTokens = 6, CurrentContextTokens = 30, TotalTurns = 3,
        Model = ''gemini-2.5-flash'', StartTime = 1000, LastActive = 2800, Duration = 1800,
        LastFileModTime = 200\<rparr>
     = (None,
        \<lparr>InputTokens = 60, OutputTokens = 6, CurrentContextTokens = 30, TotalTurns = 3,
         Model = ''gemini-2.5-flash'', StartTime = 1000, LastActive = 2800, Duration = 1800,
         LastFileModTime = 200\<rparr>,
        [EvAbs ''/proj'', EvEvalSymlinks ''/proj'',
         EvGlob ''/g/tmp/h1/chats/session-*-abcdefgh.json'',
         EvStat ''/g/tmp/h1/chats/session-a-abcdefgh.json'',
         EvStat ''/g/tmp/h1/chats/session-b-abcdefgh.json'',
         EvStat ''/g/tmp/h1/chats/session-b-abcdefgh.json''])"
proof -
  have z: "LastFileModTime example_analytics = 0"
    by (simp add: example_analytics_def)
  from unchanged_mtime_skips_second_parse [OF example_run_abcdefgh,
      where contents = "\<lambda>f. Some ''rewritten''"] z
  show ?thesis
    by (simp add: example_run_abcdefgh example_locate_abcdefgh)
qed

section \<open>Unreadable and malformed transcripts\<close>

text \<open>
  Claim C7, as amended. When the located transcript cannot be read or is not valid
  JSON, the snapshot after the call is the snapshot before it, fingerprint included.
  An error is returned (the read error or the parse error) unless the fingerprint is
  non-zero and equal to the file's modification time: then the call returns \<open>nil\<close>
  without reading the file.
\<close>

theorem failed_read_or_parse_keeps_snapshot:
  assumes "8 \<le> length sessionID"
    and "fst (locateSessionFile s projectPath sessionID) = f"
    and "f \<noteq> ''''"
    and "os_ReadFile s f = None \<or>
         (\<exists>data. os_ReadFile s f = Some data \<and> json_Unmarshal s data = None)"
  shows "fst (snd (UpdateGeminiAnalyticsFromDisk s projectPath sessionID analytics)) = analytics \<and>
         (if os_Stat s f = Some (LastFileModTime analytics) \<and> LastFileModTime analytics \<noteq> 0
          then fst (UpdateGeminiAnalyticsFromDisk s projectPath sessionID analytics) = None \<and>
               reads_or_parses (snd (snd (UpdateGeminiAnalyticsFromDisk s projectPath sessionID
                 analytics))) = []
          else fst (UpdateGeminiAnalyticsFromDisk s projectPath sessionID analytics)
                 = Some (if os_ReadFile s f = None then ReadSessionFileFailed
                         else ParseSessionFailed))"
proof (cases "os_Stat s f = Some (LastFileModTime analytics) \<and> LastFileModTime analytics \<noteq> 0")
  case True
  then have "refreshFromFile s f analytics = (None, analytics, [EvStat f])"
    by (simp add: refreshFromFile_hit)
  with assms(1-3) True show ?thesis
    by (simp add: UpdateGeminiAnalyticsFromDisk_stages)
next
  case False
  from assms(4) have
    "refreshFromFile s f analytics
       = (Some (if os_ReadFile s f = None then ReadSessionFileFailed else ParseSessionFailed),
          analytics,
          snd (snd (refreshFromFile s f analytics)))"
    unfolding refreshFromFile_miss [OF False] by (auto split: option.splits)
  then have "fst (refreshFromFile s f analytics)
         = Some (if os_ReadFile s f = None then ReadSessionFileFailed else ParseSessionFailed)"
       "fst (snd (refreshFromFile s f analytics)) = analytics"
    by (metis fst_conv, metis fst_conv snd_conv)
  with assms(1-3) False show ?thesis
    by (simp add: UpdateGeminiAnalyticsFromDisk_stages)
qed

text \<open>
  Claim C7 as stated fails: the located transcript of session \<open>deadbeef\<close> is not JSON
  and that of session \<open>unreadab\<close> cannot be read, and with a snapshot whose
  fingerprint equals the file's modification time each call returns \<open>nil\<close>, not an
  error.
\<close>

theorem unreadable_or_malformed_but_no_error:
  "fst (locateSessionFile example_sys ''/proj'' ''deadbeef-3333'')
     = ''/g/tmp/h1/chats/session-d-deadbeef.json'' \<and>
   os_ReadFile example_sys ''/g/tmp/h1/chats/session-d-deadbeef.json'' = Some ''{ sessionId: '' \<and>
   json_Unmarshal example_sys ''{ sessionId: '' = None \<and>
   fst (UpdateGeminiAnalyticsFromDisk example_sys ''/proj'' ''deadbeef-3333''
          (example_analytics\<lparr>LastFileModTime := 400\<rparr>)) = None \<and>
   fst (locateSessionFile example_sys ''/proj'' ''unreadab-4444'')
     = ''/g/tmp/h1/chats/session-e-unreadab.json'' \<and>
   os_ReadFile example_sys ''/g/tmp/h1/chats/session-e-unreadab.json'' = None \<and>
   fst (UpdateGeminiAnalyticsFromDisk example_sys ''/proj'' ''unreadab-4444''
          (example_analytics\<lparr>LastFileModTime := 500\<rparr>)) = None"
  by code_simp

theorem failed_read_or_parse_keeps_snapshot_witness:
  "fst (locateSessionFile example_sys ''/proj'' ''deadbeef-3333'')
     = ''/g/tmp/h1/chats/session-d-deadbeef.json'' \<and>
   os_ReadFile example_sys ''/g/tmp/h1/chats/session-d-deadbeef.json'' = Some ''{ sessionId: '' \<and>
   json_Unmarshal example_sys ''{ sessionId: '' = None \<and>
   os_Stat example_sys ''/g/tmp/h1/chats/session-d-deadbeef.json'' = Some 400 \<and>
   UpdateGeminiAnalyticsFromDisk example_sys ''/proj'' ''deadbeef-3333'' example_analytics
     = (Some ParseSessionFailed, example_analytics,
        [EvAbs ''/proj'', EvEvalSymlinks ''/proj'',
         EvGlob ''/g/tmp/h1/chats/session-*-deadbeef.json'',
         EvStat ''/g/tmp/h1/chats/session-d-deadbeef.json'',
         EvReadFile ''/g/tmp/h1/chats/session-d-deadbeef.json'',
         EvUnmarshal ''{ sessionId: '']) \<and>
   UpdateGeminiAnalyticsFromDisk example_sys ''/proj'' ''deadbeef-3333''
       (example_analytics\<lparr>LastFileModTime := 400\<rparr>)
     = (None, example_analytics\<lparr>LastFileModTime := 400\<rparr>,
        [EvAbs ''/proj'', EvEvalSymlinks ''/proj'',
         EvGlob ''/g/tmp/h1/chats/session-*-deadbeef.json'',
         EvStat ''/g/tmp/h1/chats/session-d-deadbeef.json''])"
proof -
  have loc: "fst (locateSessionFile example_sys ''/proj'' ''deadbeef-3333'')
     = ''/g/tmp/h1/chats/session-d-deadbeef.json''"
    by code_simp
  have rd: "os_ReadFile example_sys ''/g/tmp/h1/chats/session-d-deadbeef.json''
              = Some ''{ sessionId: ''"
    by code_simp
  have dec: "json_Unmarshal example_sys ''{ sessionId: '' = None"
    by code_simp
  have st: "os_Stat example_sys ''/g/tmp/h1/chats/session-d-deadbeef.json'' = Some 400"
    by code_simp
  have bad: "os_ReadFile example_sys ''/g/tmp/h1/chats/session-d-deadbeef.json'' = None \<or>
         (\<exists>data. os_ReadFile example_sys ''/g/tmp/h1/chats/session-d-deadbeef.json'' = Some data
            \<and> json_Unmarshal example_sys data = None)"
    using rd dec by simp
  have tr1: "snd (snd (UpdateGeminiAnalyticsFromDisk example_sys ''/proj'' ''deadbeef-3333''
       example_analytics))
     = [EvAbs ''/proj'', EvEvalSymlinks ''/proj'',
         EvGlob ''/g/tmp/h1/chats/session-*-deadbeef.json'',
         EvStat ''/g/tmp/h1/chats/session-d-deadbeef.json'',
         EvReadFile ''/g/tmp/h1/chats/session-d-deadbeef.json'',
         EvUnmarshal ''{ sessionId: '']"
    by code_simp
  have tr2: "snd (snd (UpdateGeminiAnalyticsFromDisk example_sys ''/proj'' ''deadbeef-3333''
       (example_analytics\<lparr>LastFileModTime := 400\<rparr>)))
     = [EvAbs ''/proj'', EvEvalSymlinks ''/proj'',
         EvGlob ''/g/tmp/h1/chats/session-*-deadbeef.json'',
         EvStat ''/g/tmp/h1/chats/session-d-deadbeef.json'']"
    by code_simp
  have z: "LastFileModTime example_analytics = 0" by (simp add: example_analytics_def)
  from failed_read_or_parse_keeps_snapshot [OF _ loc _ bad, of example_analytics] st z rd
  have miss: "fst (snd (UpdateGeminiAnalyticsFromDisk example_sys ''/proj'' ''deadbeef-3333''
                 example_analytics)) = example_analytics \<and>
              fst (UpdateGeminiAnalyticsFromDisk example_sys ''/proj'' ''deadbeef-3333''
                 example_analytics) = Some ParseSessionFailed"
    by simp
  from failed_read_or_parse_keeps_snapshot [OF _ loc _ bad,
      of "example_analytics\<lparr>LastFileModTime := 400\<rparr>"] st
  have hit: "fst (snd (UpdateGeminiAnalyticsFromDisk example_sys ''/proj'' ''deadbeef-3333''
                 (example_analytics\<lparr>LastFileModTime := 400\<rparr>)))
               = example_analytics\<lparr>LastFileModTime := 400\<rparr> \<and>
              fst (UpdateGeminiAnalyticsFromDisk example_sys ''/proj'' ''deadbeef-3333''
                 (example_analytics\<lparr>LastFileModTime := 400\<rparr>)) = None"
    by simp
  from miss tr1 have r1: "UpdateGeminiAnalyticsFromDisk example_sys ''/proj'' ''deadbeef-3333''
      example_analytics
     = (Some ParseSessionFailed, example_analytics,
        [EvAbs ''/proj'', EvEvalSymlinks ''/proj'',
         EvGlob ''/g/tmp/h1/chats/session-*-deadbeef.json'',
         EvStat ''/g/tmp/h1/chats/session-d-deadbeef.json'',
         EvReadFile ''/g/tmp/h1/chats/session-d-deadbeef.json'',
         EvUnmarshal ''{ sessionId: ''])"
    by (metis prod.collapse)
  from hit tr2 have r2: "UpdateGeminiAnalyticsFromDisk example_sys ''/proj'' ''deadbeef-3333''
       (example_analytics\<lparr>LastFileModTime := 400\<rparr>)
     = (None, example_analytics\<lparr>LastFileModTime := 400\<rparr>,
        [EvAbs ''/proj'', EvEvalSymlinks ''/proj'',
         EvGlob ''/g/tmp/h1/chats/session-*-deadbeef.json'',
         EvStat ''/g/tmp/h1/chats/session-d-deadbeef.json''])"
    by (metis prod.collapse)
  from loc rd dec st r1 r2 show ?thesis by blast
qed

section \<open>The override of the model list\<close>

lemma length_strings_Split:
  "length (strings_Split s sep) = Suc (length (filter (\<lambda>c. c = sep) s))"
  by (induction s) (auto split: list.splits)

lemma trim_leading_no_prefix:
  "p \<in> set seqs \<Longrightarrow> p \<noteq> [] \<Longrightarrow> \<not> prefix p (trim_leading seqs s)"
proof (induction seqs s rule: trim_leading.induct)
  case (1 seqs s)
  show ?case
  proof (cases "find (\<lambda>p. p \<noteq> [] \<and> prefix p s) seqs")
    case None
    then have "trim_leading seqs s = s"
      by (subst trim_leading.simps) simp
    moreover from None "1.prems" have "\<not> prefix p s"
      by (auto simp: find_None_iff)
    ultimately show ?thesis by simp
  next
    case (Some q)
    then have "trim_leading seqs s = trim_leading seqs (drop (length q) s)"
      by (subst trim_leading.simps) simp
    with "1.IH" [OF Some "1.prems"] show ?thesis by simp
  qed
qed

lemma trim_leading_is_drop: "\<exists>k. trim_leading seqs s = drop k s"
proof (induction seqs s rule: trim_leading.induct)
  case (1 seqs s)
  show ?case
  proof (cases "find (\<lambda>p. p \<noteq> [] \<and> prefix p s) seqs")
    case None
    then have "trim_leading seqs s = drop 0 s"
      by (subst trim_leading.simps) simp
    then show ?thesis by blast
  next
    case (Some q)
    then have "trim_leading seqs s = trim_leading seqs (drop (length q) s)"
      by (subst trim_leading.simps) simp
    with "1.IH" [OF Some] obtain k where "trim_leading seqs s = drop k (drop (length q) s)"
      by auto
    then have "trim_leading seqs s = drop (k + length q) s" by simp
    then show ?thesis by blast
  qed
qed

lemma unicode_White_Space_nonempty: "p \<in> set unicode_White_Space \<Longrightarrow> p \<noteq> []"
  by (auto simp: unicode_White_Space_def)

lemma strings_TrimSpace_no_suffix:
  assumes "p \<in> set unicode_White_Space"
  shows "\<not> suffix p (strings_TrimSpace s)"
proof -
  have "rev p \<in> set (map rev unicode_White_Space)" "rev p \<noteq> []"
    using assms unicode_White_Space_nonempty by auto
  from trim_leading_no_prefix [OF this]
  show ?thesis
    by (simp add: strings_TrimSpace_def suffix_to_prefix)
qed

lemma strings_TrimSpace_no_prefix:
  assumes "p \<in> set unicode_White_Space"
  shows "\<not> prefix p (strings_TrimSpace s)"
proof
  assume pre: "prefix p (strings_TrimSpace s)"
  let ?l = "trim_leading unicode_White_Space s"
  obtain k where "trim_leading (map rev unicode_White_Space) (rev ?l) = drop k (rev ?l)"
    using trim_leading_is_drop by blast
  then have "strings_TrimSpace s = take (length ?l - k) ?l"
    by (simp add: strings_TrimSpace_def rev_drop)
  then have "prefix (strings_TrimSpace s) ?l"
    by (simp add: take_is_prefix)
  with pre have "prefix p ?l"
    using prefix_order.order_trans by blast
  moreover have "\<not> prefix p ?l"
    using trim_leading_no_prefix assms unicode_White_Space_nonempty by blast
  ultimately show False by simp
qed

text \<open>
  Claim C8, as amended. For a non-empty override the function returns, without an
  error and without touching the cache, the pieces between the commas, each with its
  leading and trailing white space stripped, in sorted order: one entry for every
  piece, so equal names stay in the list as often as they occur, and no entry begins
  or ends with white space.
\<close>

theorem override_models_trimmed_sorted:
  assumes "os_Getenv env ''GEMINI_MODELS_OVERRIDE'' = override" and "override \<noteq> ''''"
  shows "GetAvailableGeminiModels env cache
           = (Inr (sort (map strings_TrimSpace (strings_Split override CHR '',''))), cache) \<and>
         sorted (sort (map strings_TrimSpace (strings_Split override CHR '',''))) \<and>
         length (sort (map strings_TrimSpace (strings_Split override CHR '','')))
           = Suc (length (filter (\<lambda>c. c = CHR '','') override)) \<and>
         (\<forall>m \<in> set (sort (map strings_TrimSpace (strings_Split override CHR '',''))).
            \<forall>p \<in> set unicode_White_Space. \<not> prefix p m \<and> \<not> suffix p m)"
proof -
  have "GetAvailableGeminiModels env cache
           = (Inr (sort (map strings_TrimSpace (strings_Split override CHR '',''))), cache)"
    using assms by (simp add: GetAvailableGeminiModels_def)
  moreover have "length (sort (map strings_TrimSpace (strings_Split override CHR '','')))
           = Suc (length (filter (\<lambda>c. c = CHR '','') override))"
    by (simp add: length_strings_Split)
  moreover have "\<forall>m \<in> set (sort (map strings_TrimSpace (strings_Split override CHR '',''))).
            \<forall>p \<in> set unicode_White_Space. \<not> prefix p m \<and> \<not> suffix p m"
    using strings_TrimSpace_no_prefix strings_TrimSpace_no_suffix by auto
  ultimately show ?thesis by simp
qed

theorem override_models_trimmed_sorted_witness:
  "os_Getenv example_models_env ''GEMINI_MODELS_OVERRIDE'' = ''m1, m2,m1'' \<and>
   GetAvailableGeminiModels example_models_env example_models_cache
     = (Inr [''m1'', ''m1'', ''m2''], example_models_cache)"
proof -
  have v: "os_Getenv example_models_env ''GEMINI_MODELS_OVERRIDE'' = ''m1, m2,m1''"
    by (simp add: example_models_env_def)
  have e: "sort (map strings_TrimSpace (strings_Split ''m1, m2,m1'' CHR '','')) = [''m1'', ''m1'', ''m2'']"
    by code_simp
  from override_models_trimmed_sorted [OF v, of example_models_cache] v e
  show ?thesis by simp
qed

text \<open>
  Claim C8 as stated fails: for the override \<open>"m1, m2,m1"\<close> the list returned holds
  \<open>m1\<close> twice.
\<close>

theorem override_models_duplicates_kept:
  "fst (GetAvailableGeminiModels example_models_env example_models_cache)
     = Inr [''m1'', ''m1'', ''m2''] \<and>
   \<not> distinct [''m1'', ''m1'', ''m2'']"
  by code_simp

section \<open>The round trip of the YOLO mode\<close>

text \<open>
  Claim C2. Let an instance be running, that is its tmux session exists. After
  \<open>SetGeminiYoloMode v\<close> on it, which succeeds, the variable \<open>GEMINI_YOLO_MODE\<close> of the
  session is \<open>"true"\<close> or \<open>"false"\<close> according to \<open>v\<close>, and \<open>UpdateGeminiSession\<close> on any
  instance attached to the same session whose flag is unset sets the flag to \<open>v\<close>.
\<close>

theorem yolo_mode_round_trip:
  assumes "tm (tmuxSession inst) = Some env"
    and "tmuxSession attached = tmuxSession inst"
    and "GeminiYoloMode attached = None"
  shows "fst (SetGeminiYoloMode inst v tm) = None \<and>
         GeminiYoloMode (fst (snd (SetGeminiYoloMode inst v tm))) = Some v \<and>
         GetEnvironment (snd (snd (SetGeminiYoloMode inst v tm))) (tmuxSession inst)
             ''GEMINI_YOLO_MODE''
           = Some (if v then ''true'' else ''false'') \<and>
         GeminiYoloMode (UpdateGeminiSession attached (snd (snd (SetGeminiYoloMode inst v tm))))
           = Some v"
  using assms
  by (simp add: SetGeminiYoloMode_def SetEnvironment_def GetEnvironment_def
      UpdateGeminiSession_def)

theorem yolo_mode_round_trip_witness:
  "example_tmux (tmuxSession example_instance) = Some [''TERM'' \<mapsto> ''xterm''] \<and>
   GeminiYoloMode example_instance = None \<and>
   GeminiYoloMode (UpdateGeminiSession example_instance
      (snd (snd (SetGeminiYoloMode example_instance True example_tmux)))) = Some True \<and>
   GeminiYoloMode (UpdateGeminiSession example_instance
      (snd (snd (SetGeminiYoloMode example_instance False example_tmux)))) = Some False \<and>
   GetEnvironment (snd (snd (SetGeminiYoloMode example_instance True example_tmux)))
      ''agentdeck_yolo-sync-test'' ''GEMINI_YOLO_MODE'' = Some ''true'' \<and>
   GetEnvironment (snd (snd (SetGeminiYoloMode example_instance False example_tmux)))
      ''agentdeck_yolo-sync-test'' ''GEMINI_YOLO_MODE'' = Some ''false''"
proof -
  have live: "example_tmux (tmuxSession example_instance) = Some [''TERM'' \<mapsto> ''xterm'']"
    by (simp add: example_tmux_def example_instance_def)
  have unset: "GeminiYoloMode example_instance = None"
    by (simp add: example_instance_def)
  have name: "tmuxSession example_instance = ''agentdeck_yolo-sync-test''"
    by (simp add: example_instance_def)
  from yolo_mode_round_trip [of example_tmux example_instance _ example_instance True,
         OF live refl unset]
       yolo_mode_round_trip [of example_tmux example_instance _ example_instance False,
         OF live refl unset] live unset name
  show ?thesis by simp
qed

section \<open>The scan of all project directories\<close>

text \<open>What \<open>findNewestFile\<close> returns for one pattern, when no match has the empty name.\<close>

lemma findNewestFile_candidate:
  assumes names: "'''' \<notin> set (filepath_Glob s p)"
  shows "fst (findNewestFile s p) = '''' \<or> fst (findNewestFile s p) \<in> set (filepath_Glob s p)"
    and "g \<in> set (filepath_Glob s p) \<Longrightarrow> os_Stat s g = Some u \<Longrightarrow> 0 < u \<Longrightarrow>
           fst (findNewestFile s p) \<noteq> '''' \<and>
           (\<exists>tc. os_Stat s (fst (findNewestFile s p)) = Some tc \<and> u \<le> tc)"
proof -
  obtain r tr evs where
    loop: "findNewestFile_loop (os_Stat s) (filepath_Glob s p) '''' 0 = (r, tr, evs)"
    by (metis prod_cases3)
  note res = findNewestFile_loop_result [OF loop]
  have shape: "\<And>P. (filepath_Glob s p = [] \<Longrightarrow> P) \<Longrightarrow>
      (\<And>x. filepath_Glob s p = [x] \<Longrightarrow> P) \<Longrightarrow>
      (1 < length (filepath_Glob s p) \<Longrightarrow> P) \<Longrightarrow> P"
  proof -
    fix P
    assume n: "filepath_Glob s p = [] \<Longrightarrow> P"
      and o: "\<And>x. filepath_Glob s p = [x] \<Longrightarrow> P"
      and m: "1 < length (filepath_Glob s p) \<Longrightarrow> P"
    show P
    proof (cases "filepath_Glob s p")
      case Nil
      then show ?thesis by (rule n)
    next
      case (Cons x xs)
      then show ?thesis using o m by (cases xs) auto
    qed
  qed
  show "fst (findNewestFile s p) = '''' \<or> fst (findNewestFile s p) \<in> set (filepath_Glob s p)"
  proof (rule shape)
    assume "filepath_Glob s p = []"
    then show ?thesis by (simp add: findNewestFile_def)
  next
    fix x assume "filepath_Glob s p = [x]"
    then show ?thesis by (simp add: findNewestFile_def)
  next
    assume "1 < length (filepath_Glob s p)"
    then have "filepath_Glob s p \<noteq> []" "length (filepath_Glob s p) \<noteq> 1" by auto
    with loop have "fst (findNewestFile s p) = r"
      by (simp add: findNewestFile_def Let_def)
    with res show ?thesis by auto
  qed
  assume g: "g \<in> set (filepath_Glob s p)" "os_Stat s g = Some u" "0 < u"
  show "fst (findNewestFile s p) \<noteq> '''' \<and>
           (\<exists>tc. os_Stat s (fst (findNewestFile s p)) = Some tc \<and> u \<le> tc)"
  proof (rule shape)
    assume "filepath_Glob s p = []"
    with g show ?thesis by simp
  next
    fix x assume "filepath_Glob s p = [x]"
    with g names show ?thesis by (auto simp: findNewestFile_def)
  next
    assume "1 < length (filepath_Glob s p)"
    then have "filepath_Glob s p \<noteq> []" "length (filepath_Glob s p) \<noteq> 1" by auto
    with loop have r: "fst (findNewestFile s p) = r"
      by (simp add: findNewestFile_def Let_def)
    from res g have "\<exists>pre post. filepath_Glob s p = pre @ r # post \<and> os_Stat s r = Some tr \<and>
        0 < tr \<and> (\<forall>g \<in> set pre. \<forall>u. os_Stat s g = Some u \<longrightarrow> u < tr) \<and>
        (\<forall>g \<in> set post. \<forall>u. os_Stat s g = Some u \<longrightarrow> u \<le> tr)"
      by fastforce
    then obtain pre post where pp: "filepath_Glob s p = pre @ r # post" "os_Stat s r = Some tr"
        "\<forall>g \<in> set pre. \<forall>u. os_Stat s g = Some u \<longrightarrow> u < tr"
        "\<forall>g \<in> set post. \<forall>u. os_Stat s g = Some u \<longrightarrow> u \<le> tr"
      by blast
    from pp(1) names have "r \<noteq> ''''" by auto
    moreover from g pp have "u \<le> tr" by fastforce
    ultimately show ?thesis using r pp(2) by simp
  qed
qed

lemma findGeminiSessionInAllProjects_loop_candidates:
  "fst (findGeminiSessionInAllProjects_loop s tmpDir tp entries nf nt)
     = fst (findNewestFile_loop (os_Stat s) (candidates s tmpDir tp entries) nf nt) \<and>
   fst (snd (findGeminiSessionInAllProjects_loop s tmpDir tp entries nf nt))
     = fst (snd (findNewestFile_loop (os_Stat s) (candidates s tmpDir tp entries) nf nt))"
proof (induction entries arbitrary: nf nt)
  case Nil
  then show ?case by (simp add: candidates_def)
next
  case (Cons e es)
  let ?c = "fst (findNewestFile s (filepath_Join s [filepath_Join s [tmpDir, Name e, ''chats''], tp]))"
  show ?case
  proof (cases "IsDir e \<and> ?c \<noteq> ''''")
    case False
    then have "candidates s tmpDir tp (e # es) = candidates s tmpDir tp es"
      by (auto simp: candidates_def)
    moreover from False have
      "fst (findGeminiSessionInAllProjects_body s tmpDir tp e nf nt) = nf"
      "fst (snd (findGeminiSessionInAllProjects_body s tmpDir tp e nf nt)) = nt"
      by (auto simp: findGeminiSessionInAllProjects_body_def Let_def split_def)
    ultimately show ?thesis
      using Cons.IH [of nf nt] by (simp add: split_def Let_def)
  next
    case True
    then have c: "candidates s tmpDir tp (e # es) = ?c # candidates s tmpDir tp es"
      by (simp add: candidates_def)
    show ?thesis
    proof (cases "os_Stat s ?c")
      case None
      with True have
        "fst (findGeminiSessionInAllProjects_body s tmpDir tp e nf nt) = nf"
        "fst (snd (findGeminiSessionInAllProjects_body s tmpDir tp e nf nt)) = nt"
        by (auto simp: findGeminiSessionInAllProjects_body_def Let_def split_def)
      with None c show ?thesis
        using Cons.IH [of nf nt] by (simp add: split_def Let_def)
    next
      case (Some m)
      show ?thesis
      proof (cases "nt < m")
        case lt: True
        with True Some have
          "fst (findGeminiSessionInAllProjects_body s tmpDir tp e nf nt) = ?c"
          "fst (snd (findGeminiSessionInAllProjects_body s tmpDir tp e nf nt)) = m"
          by (auto simp: findGeminiSessionInAllProjects_body_def Let_def split_def)
        with Some c lt show ?thesis
          using Cons.IH [of ?c m] by (simp add: split_def Let_def)
      next
        case ge: False
        with True Some have
          "fst (findGeminiSessionInAllProjects_body s tmpDir tp e nf nt) = nf"
          "fst (snd (findGeminiSessionInAllProjects_body s tmpDir tp e nf nt)) = nt"
          by (auto simp: findGeminiSessionInAllProjects_body_def Let_def split_def)
        with Some c ge show ?thesis
          using Cons.IH [of nf nt] by (simp add: split_def Let_def)
      qed
    qed
  qed
qed

lemma findGeminiSessionInAllProjects_scan:
  assumes "8 \<le> length sessionID"
    and "os_ReadDir s (filepath_Join s [fst (GetGeminiConfigDir s), ''tmp'']) = Some entries"
  shows "fst (findGeminiSessionInAllProjects s sessionID)
           = fst (findNewestFile_loop (os_Stat s)
                    (candidates s (filepath_Join s [fst (GetGeminiConfigDir s), ''tmp''])
                       (''session-*-'' @ take 8 sessionID @ ''.json'') entries) '''' 0)"
proof -
  from assms(1) have "sessionID \<noteq> ''''" "\<not> length sessionID < 8"
    by auto
  with assms(2) findGeminiSessionInAllProjects_loop_candidates
    [of s "filepath_Join s [fst (GetGeminiConfigDir s), ''tmp'']"
        "''session-*-'' @ take 8 sessionID @ ''.json''" entries "''''" 0]
  show ?thesis
    by (simp add: findGeminiSessionInAllProjects_def Let_def split_def)
qed

lemma candidates_project_pattern:
  "candidates s (filepath_Join s [fst (GetGeminiConfigDir s), ''tmp''])
      (''session-*-'' @ take 8 sessionID @ ''.json'') entries
     = filter (\<lambda>f. f \<noteq> '''')
         (map (\<lambda>e. fst (findNewestFile s (project_pattern s sessionID e))) (filter IsDir entries))"
  by (simp add: candidates_def project_pattern_def)

text \<open>
  Claim C5. Let the expected sessions directory hold no match for the pattern, and let
  some directory entry under the \<open>tmp\<close> directory of the configuration directory be a
  directory whose \<open>chats\<close> holds a match with a readable modification time after Go's
  zero Time (\<open>filepath.Glob\<close> never yields an empty name). Then the file that
  \<open>UpdateGeminiAnalyticsFromDisk\<close> locates is the result of the full scan; it is a match
  in one of the project directories, and no match in any project directory is more
  recent. If the given match is the only one, it is the file located.
\<close>

theorem fallback_scan_finds_most_recent:
  assumes len: "8 \<le> length sessionID"
    and names: "\<forall>p. '''' \<notin> set (filepath_Glob s p)"
    and expected: "filepath_Glob s (filepath_Join s [fst (GetGeminiSessionsDir s projectPath),
                      ''session-*-'' @ take 8 sessionID @ ''.json'']) = []"
    and rd: "os_ReadDir s (filepath_Join s [fst (GetGeminiConfigDir s), ''tmp'']) = Some entries"
    and other: "entry \<in> set entries" "IsDir entry"
    and match: "file \<in> set (filepath_Glob s (project_pattern s sessionID entry))"
               "os_Stat s file = Some t" "0 < t"
  shows "fst (locateSessionFile s projectPath sessionID)
           = fst (findGeminiSessionInAllProjects s sessionID) \<and>
         (\<exists>e \<in> set entries. IsDir e \<and>
            fst (locateSessionFile s projectPath sessionID)
              \<in> set (filepath_Glob s (project_pattern s sessionID e))) \<and>
         (\<exists>tr. os_Stat s (fst (locateSessionFile s projectPath sessionID)) = Some tr \<and> t \<le> tr \<and>
            (\<forall>e \<in> set entries. IsDir e \<longrightarrow>
               (\<forall>g \<in> set (filepath_Glob s (project_pattern s sessionID e)).
                  \<forall>u. os_Stat s g = Some u \<longrightarrow> u \<le> tr))) \<and>
         ((\<forall>e \<in> set entries. IsDir e \<longrightarrow>
             set (filepath_Glob s (project_pattern s sessionID e)) \<subseteq> {file}) \<longrightarrow>
            fst (locateSessionFile s projectPath sessionID) = file)"
proof -
  let ?cand = "\<lambda>e. fst (findNewestFile s (project_pattern s sessionID e))"
  let ?cands = "filter (\<lambda>f. f \<noteq> '''') (map ?cand (filter IsDir entries))"
  let ?r = "fst (findGeminiSessionInAllProjects s sessionID)"
  have loc: "fst (locateSessionFile s projectPath sessionID) = ?r"
    using expected by (simp add: locateSessionFile_def findNewestFile_def Let_def split_def)
  obtain r tr evs where
    loop: "findNewestFile_loop (os_Stat s) ?cands '''' 0 = (r, tr, evs)"
    by (metis prod_cases3)
  have r: "?r = r"
    using findGeminiSessionInAllProjects_scan [OF len rd, unfolded candidates_project_pattern]
      loop
    by simp
  have cand_in: "\<And>e. e \<in> set entries \<Longrightarrow> IsDir e \<Longrightarrow> ?cand e \<noteq> '''' \<Longrightarrow> ?cand e \<in> set ?cands"
    by auto
  have dominated: "\<And>e g u. e \<in> set entries \<Longrightarrow> IsDir e \<Longrightarrow>
      g \<in> set (filepath_Glob s (project_pattern s sessionID e)) \<Longrightarrow> os_Stat s g = Some u \<Longrightarrow>
      0 < u \<Longrightarrow> \<exists>c \<in> set ?cands. \<exists>tc. os_Stat s c = Some tc \<and> u \<le> tc"
  proof -
    fix e g u
    assume e: "e \<in> set entries" "IsDir e"
      and g: "g \<in> set (filepath_Glob s (project_pattern s sessionID e))" "os_Stat s g = Some u" "0 < u"
    from names have "'''' \<notin> set (filepath_Glob s (project_pattern s sessionID e))" by blast
    from findNewestFile_candidate(2) [OF this g]
    have "?cand e \<noteq> ''''" "\<exists>tc. os_Stat s (?cand e) = Some tc \<and> u \<le> tc" by auto
    with cand_in [OF e] show "\<exists>c \<in> set ?cands. \<exists>tc. os_Stat s c = Some tc \<and> u \<le> tc"
      by blast
  qed
  from dominated [OF other match] obtain c0 tc0 where
    c0: "c0 \<in> set ?cands" "os_Stat s c0 = Some tc0" "t \<le> tc0"
    by blast
  with match(3) have "\<not> (\<forall>g \<in> set ?cands. \<forall>u. os_Stat s g = Some u \<longrightarrow> u \<le> 0)"
    by fastforce
  with findNewestFile_loop_result [OF loop] obtain pre post where
    pp: "?cands = pre @ r # post" "os_Stat s r = Some tr" "0 < tr"
        "\<forall>g \<in> set pre. \<forall>u. os_Stat s g = Some u \<longrightarrow> u < tr"
        "\<forall>g \<in> set post. \<forall>u. os_Stat s g = Some u \<longrightarrow> u \<le> tr"
    by blast
  have top: "\<And>c u. c \<in> set ?cands \<Longrightarrow> os_Stat s c = Some u \<Longrightarrow> u \<le> tr"
  proof -
    fix c u assume "c \<in> set ?cands" "os_Stat s c = Some u"
    then have "c \<in> set pre \<or> c = r \<or> c \<in> set post" unfolding pp(1) by auto
    with pp(2,4,5) \<open>os_Stat s c = Some u\<close> show "u \<le> tr" by fastforce
  qed
  have "r \<in> set ?cands" unfolding pp(1) by simp
  then obtain e where e: "e \<in> set entries" "IsDir e" "r = ?cand e" "r \<noteq> ''''"
    by auto
  from names have "'''' \<notin> set (filepath_Glob s (project_pattern s sessionID e))" by blast
  from findNewestFile_candidate(1) [OF this] e(3,4)
  have rin: "r \<in> set (filepath_Glob s (project_pattern s sessionID e))" by auto
  have all: "\<forall>e \<in> set entries. IsDir e \<longrightarrow>
               (\<forall>g \<in> set (filepath_Glob s (project_pattern s sessionID e)).
                  \<forall>u. os_Stat s g = Some u \<longrightarrow> u \<le> tr)"
  proof (intro ballI impI allI)
    fix e' g u
    assume e': "e' \<in> set entries" "IsDir e'"
      and g: "g \<in> set (filepath_Glob s (project_pattern s sessionID e'))" "os_Stat s g = Some u"
    show "u \<le> tr"
    proof (cases "0 < u")
      case True
      from dominated [OF e' g True] top show ?thesis by fastforce
    next
      case False
      with pp(3) show ?thesis by simp
    qed
  qed
  have ttr: "t \<le> tr" using top [OF c0(1,2)] c0(3) by simp
  have only: "(\<forall>e \<in> set entries. IsDir e \<longrightarrow>
             set (filepath_Glob s (project_pattern s sessionID e)) \<subseteq> {file}) \<longrightarrow> r = file"
    using e(1,2) rin by blast
  have c2: "\<exists>e \<in> set entries. IsDir e \<and>
            fst (locateSessionFile s projectPath sessionID)
              \<in> set (filepath_Glob s (project_pattern s sessionID e))"
    unfolding loc r using e(1,2) rin by blast
  have c3: "\<exists>tr. os_Stat s (fst (locateSessionFile s projectPath sessionID)) = Some tr \<and> t \<le> tr \<and>
            (\<forall>e \<in> set entries. IsDir e \<longrightarrow>
               (\<forall>g \<in> set (filepath_Glob s (project_pattern s sessionID e)).
                  \<forall>u. os_Stat s g = Some u \<longrightarrow> u \<le> tr))"
    unfolding loc r using pp(2) ttr all by blast
  have c4: "(\<forall>e \<in> set entries. IsDir e \<longrightarrow>
             set (filepath_Glob s (project_pattern s sessionID e)) \<subseteq> {file}) \<longrightarrow>
            fst (locateSessionFile s projectPath sessionID) = file"
    unfolding loc r by (rule only)
  from loc c2 c3 c4 show ?thesis by (intro conjI)
qed

theorem fallback_scan_finds_most_recent_witness:
  "filepath_Glob example_sys (filepath_Join example_sys
      [fst (GetGeminiSessionsDir example_sys ''/proj''),
       ''session-*-'' @ take 8 ''12345678-2222'' @ ''.json'']) = [] \<and>
   os_ReadDir example_sys (filepath_Join example_sys [fst (GetGeminiConfigDir example_sys), ''tmp''])
     = Some [\<lparr>Name = ''h1'', IsDir = True\<rparr>, \<lparr>Name = ''installation_id'', IsDir = False\<rparr>,
             \<lparr>Name = ''h2'', IsDir = True\<rparr>] \<and>
   filepath_Glob example_sys (project_pattern example_sys ''12345678-2222''
      \<lparr>Name = ''h2'', IsDir = True\<rparr>) = [''/g/tmp/h2/chats/session-c-12345678.json''] \<and>
   os_Stat example_sys ''/g/tmp/h2/chats/session-c-12345678.json'' = Some 300 \<and>
   fst (locateSessionFile example_sys ''/proj'' ''12345678-2222'')
     = ''/g/tmp/h2/chats/session-c-12345678.json''"
proof -
  let ?h1 = "\<lparr>Name = ''h1'', IsDir = True\<rparr>"
  let ?f = "\<lparr>Name = ''installation_id'', IsDir = False\<rparr>"
  let ?h2 = "\<lparr>Name = ''h2'', IsDir = True\<rparr>"
  let ?c = "''/g/tmp/h2/chats/session-c-12345678.json''"
  have len: "8 \<le> length ''12345678-2222''" by simp
  have names: "\<forall>p. '''' \<notin> set (filepath_Glob example_sys p)"
    by (simp add: example_sys_def)
  have expected: "filepath_Glob example_sys (filepath_Join example_sys
      [fst (GetGeminiSessionsDir example_sys ''/proj''),
       ''session-*-'' @ take 8 ''12345678-2222'' @ ''.json'']) = []"
    by code_simp
  have rd: "os_ReadDir example_sys
      (filepath_Join example_sys [fst (GetGeminiConfigDir example_sys), ''tmp''])
     = Some [?h1, ?f, ?h2]"
    by code_simp
  have g1: "filepath_Glob example_sys (project_pattern example_sys ''12345678-2222'' ?h1) = []"
    by code_simp
  have g2: "filepath_Glob example_sys (project_pattern example_sys ''12345678-2222'' ?h2) = [?c]"
    by code_simp
  have st: "os_Stat example_sys ?c = Some 300"
    by code_simp
  have only: "\<forall>e \<in> set [?h1, ?f, ?h2]. IsDir e \<longrightarrow>
      set (filepath_Glob example_sys (project_pattern example_sys ''12345678-2222'' e)) \<subseteq> {?c}"
    using g1 g2 by simp
  have mem: "?h2 \<in> set [?h1, ?f, ?h2]" by simp
  have dir: "IsDir ?h2" by simp
  have m: "?c \<in> set (filepath_Glob example_sys (project_pattern example_sys ''12345678-2222'' ?h2))"
    using g2 by simp
  have pos: "(0::int) < 300" by simp
  note scan = fallback_scan_finds_most_recent [OF len names expected rd mem dir m st pos]
  from scan [THEN conjunct2, THEN conjunct2, THEN conjunct2] only
  have "fst (locateSessionFile example_sys ''/proj'' ''12345678-2222'') = ?c"
    by (rule mp)
  with expected rd g2 st show ?thesis by (intro conjI)
qed

section \<open>The lookup in the expected sessions directory\<close>

lemma locateSessionFile_expected:
  "locateSessionFile s projectPath sessionID =
     (if fst (findNewestFile s (expected_pattern s projectPath sessionID)) = ''''
      then (fst (findGeminiSessionInAllProjects s sessionID),
            snd (GetGeminiSessionsDir s projectPath)
              @ snd (findNewestFile s (expected_pattern s projectPath sessionID))
              @ snd (findGeminiSessionInAllProjects s sessionID))
      else (fst (findNewestFile s (expected_pattern s projectPath sessionID)),
            snd (GetGeminiSessionsDir s projectPath)
              @ snd (findNewestFile s (expected_pattern s projectPath sessionID))))"
  by (simp add: locateSessionFile_def expected_pattern_def Let_def split_def)

text \<open>
  Claim C6. The locator of \<open>UpdateGeminiAnalyticsFromDisk\<close> first globs, in the expected
  sessions directory, for the pattern that holds the first 8 bytes of the identifier.
  When several files match, of which at least one has a modification time that
  \<open>os.Stat\<close> can read and that lies after Go's zero Time (\<open>filepath.Glob\<close> never
  yields an empty name), the file located is one of these matches, no match is more
  recent, and every match before it in the order of \<open>filepath.Glob\<close> is strictly
  older; files in other project directories are not looked at. When nothing matches,
  this lookup returns the empty string, and the file located is whatever the scan of
  all project directories returns, the empty string when that finds nothing: then
  the call reports that no session file was found and leaves the snapshot as it was.
\<close>

theorem locator_returns_most_recent_match:
  "(1 < length (filepath_Glob s (expected_pattern s projectPath sessionID)) \<and>
    '''' \<notin> set (filepath_Glob s (expected_pattern s projectPath sessionID)) \<and>
    (\<exists>g \<in> set (filepath_Glob s (expected_pattern s projectPath sessionID)).
       \<exists>u. os_Stat s g = Some u \<and> 0 < u) \<longrightarrow>
      (\<exists>pre post tr.
         filepath_Glob s (expected_pattern s projectPath sessionID)
           = pre @ fst (locateSessionFile s projectPath sessionID) # post \<and>
         os_Stat s (fst (locateSessionFile s projectPath sessionID)) = Some tr \<and>
         (\<forall>g \<in> set pre. \<forall>u. os_Stat s g = Some u \<longrightarrow> u < tr) \<and>
         (\<forall>g \<in> set post. \<forall>u. os_Stat s g = Some u \<longrightarrow> u \<le> tr)) \<and>
      snd (locateSessionFile s projectPath sessionID)
        = snd (GetGeminiSessionsDir s projectPath)
            @ EvGlob (expected_pattern s projectPath sessionID)
            # map EvStat (filepath_Glob s (expected_pattern s projectPath sessionID))) \<and>
   (filepath_Glob s (expected_pattern s projectPath sessionID) = [] \<longrightarrow>
      fst (findNewestFile s (expected_pattern s projectPath sessionID)) = '''' \<and>
      fst (locateSessionFile s projectPath sessionID)
        = fst (findGeminiSessionInAllProjects s sessionID) \<and>
      (8 \<le> length sessionID \<and> fst (findGeminiSessionInAllProjects s sessionID) = '''' \<longrightarrow>
         fst (locateSessionFile s projectPath sessionID) = '''' \<and>
         fst (UpdateGeminiAnalyticsFromDisk s projectPath sessionID analytics)
           = Some SessionFileNotFound \<and>
         fst (snd (UpdateGeminiAnalyticsFromDisk s projectPath sessionID analytics))
           = analytics))"
proof (intro conjI impI)
  let ?p = "expected_pattern s projectPath sessionID"
  assume a: "1 < length (filepath_Glob s ?p) \<and> '''' \<notin> set (filepath_Glob s ?p) \<and>
    (\<exists>g \<in> set (filepath_Glob s ?p). \<exists>u. os_Stat s g = Some u \<and> 0 < u)"
  then have several: "1 < length (filepath_Glob s ?p) \<and>
    (\<exists>g \<in> set (filepath_Glob s ?p). \<exists>u. os_Stat s g = Some u \<and> 0 < u)"
    by blast
  from findNewestFile_newest [of s ?p, THEN conjunct2, rule_format, OF several]
  obtain pre post tr where
    pp: "filepath_Glob s ?p = pre @ fst (findNewestFile s ?p) # post"
        "os_Stat s (fst (findNewestFile s ?p)) = Some tr"
        "\<forall>g \<in> set pre. \<forall>u. os_Stat s g = Some u \<longrightarrow> u < tr"
        "\<forall>g \<in> set post. \<forall>u. os_Stat s g = Some u \<longrightarrow> u \<le> tr"
    by blast
  have "fst (findNewestFile s ?p) \<in> set (filepath_Glob s ?p)"
    by (subst pp(1)) simp
  with a have ne: "fst (findNewestFile s ?p) \<noteq> ''''" by auto
  then have loc: "fst (locateSessionFile s projectPath sessionID) = fst (findNewestFile s ?p)"
    by (simp add: locateSessionFile_expected)
  show "\<exists>pre post tr.
         filepath_Glob s ?p = pre @ fst (locateSessionFile s projectPath sessionID) # post \<and>
         os_Stat s (fst (locateSessionFile s projectPath sessionID)) = Some tr \<and>
         (\<forall>g \<in> set pre. \<forall>u. os_Stat s g = Some u \<longrightarrow> u < tr) \<and>
         (\<forall>g \<in> set post. \<forall>u. os_Stat s g = Some u \<longrightarrow> u \<le> tr)"
    unfolding loc using pp by blast
  obtain r t evs where
    loop: "findNewestFile_loop (os_Stat s) (filepath_Glob s ?p) '''' 0 = (r, t, evs)"
    by (metis prod_cases3)
  from several have "filepath_Glob s ?p \<noteq> []" "length (filepath_Glob s ?p) \<noteq> 1"
    by auto
  with loop findNewestFile_loop_trace [OF loop]
  have "snd (findNewestFile s ?p) = EvGlob ?p # map EvStat (filepath_Glob s ?p)"
    by (simp add: findNewestFile_def Let_def)
  with ne show "snd (locateSessionFile s projectPath sessionID)
        = snd (GetGeminiSessionsDir s projectPath) @ EvGlob ?p # map EvStat (filepath_Glob s ?p)"
    by (simp add: locateSessionFile_expected)
next
  let ?p = "expected_pattern s projectPath sessionID"
  assume "filepath_Glob s ?p = []"
  then show e: "fst (findNewestFile s ?p) = ''''"
    by (simp add: findNewestFile_def)
  then show "fst (locateSessionFile s projectPath sessionID)
        = fst (findGeminiSessionInAllProjects s sessionID)"
    by (simp add: locateSessionFile_expected)
next
  let ?p = "expected_pattern s projectPath sessionID"
  assume n: "filepath_Glob s ?p = []"
    and b: "8 \<le> length sessionID \<and> fst (findGeminiSessionInAllProjects s sessionID) = ''''"
  from n have "fst (findNewestFile s ?p) = ''''"
    by (simp add: findNewestFile_def)
  with b show l: "fst (locateSessionFile s projectPath sessionID) = ''''"
    by (simp add: locateSessionFile_expected)
  from b l show "fst (UpdateGeminiAnalyticsFromDisk s projectPath sessionID analytics)
           = Some SessionFileNotFound"
    by (simp add: UpdateGeminiAnalyticsFromDisk_stages)
  from b l show "fst (snd (UpdateGeminiAnalyticsFromDisk s projectPath sessionID analytics))
           = analytics"
    by (simp add: UpdateGeminiAnalyticsFromDisk_stages)
qed

lemma example_expected_patterns:
  "expected_pattern example_sys ''/proj'' ''abcdefgh-1111''
     = ''/g/tmp/h1/chats/session-*-abcdefgh.json''"
  "expected_pattern example_sys ''/proj'' ''nothere0-4444''
     = ''/g/tmp/h1/chats/session-*-nothere0.json''"
  by code_simp+

theorem locator_returns_most_recent_match_witness:
  "filepath_Glob example_sys (expected_pattern example_sys ''/proj'' ''abcdefgh-1111'')
     = [''/g/tmp/h1/chats/session-a-abcdefgh.json'', ''/g/tmp/h1/chats/session-b-abcdefgh.json''] \<and>
   os_Stat example_sys ''/g/tmp/h1/chats/session-a-abcdefgh.json'' = Some 100 \<and>
   os_Stat example_sys ''/g/tmp/h1/chats/session-b-abcdefgh.json'' = Some 200 \<and>
   os_Stat example_sys ''/g/tmp/h2/chats/session-z-abcdefgh.json'' = Some 900 \<and>
   (\<exists>pre post tr.
      [''/g/tmp/h1/chats/session-a-abcdefgh.json'', ''/g/tmp/h1/chats/session-b-abcdefgh.json'']
        = pre @ fst (locateSessionFile example_sys ''/proj'' ''abcdefgh-1111'') # post \<and>
      os_Stat example_sys (fst (locateSessionFile example_sys ''/proj'' ''abcdefgh-1111''))
        = Some tr \<and>
      (\<forall>g \<in> set pre. \<forall>u. os_Stat example_sys g = Some u \<longrightarrow> u < tr) \<and>
      (\<forall>g \<in> set post. \<forall>u. os_Stat example_sys g = Some u \<longrightarrow> u \<le> tr)) \<and>
   fst (locateSessionFile example_sys ''/proj'' ''abcdefgh-1111'')
     = ''/g/tmp/h1/chats/session-b-abcdefgh.json'' \<and>
   filepath_Glob example_sys (expected_pattern example_sys ''/proj'' ''nothere0-4444'') = [] \<and>
   fst (locateSessionFile example_sys ''/proj'' ''nothere0-4444'') = '''' \<and>
   fst (UpdateGeminiAnalyticsFromDisk example_sys ''/proj'' ''nothere0-4444'' example_analytics)
     = Some SessionFileNotFound \<and>
   fst (snd (UpdateGeminiAnalyticsFromDisk example_sys ''/proj'' ''nothere0-4444''
     example_analytics)) = example_analytics"
proof -
  let ?a = "''/g/tmp/h1/chats/session-a-abcdefgh.json''"
  let ?b = "''/g/tmp/h1/chats/session-b-abcdefgh.json''"
  let ?p2 = "expected_pattern example_sys ''/proj'' ''abcdefgh-1111''"
  let ?p0 = "expected_pattern example_sys ''/proj'' ''nothere0-4444''"
  have g2: "filepath_Glob example_sys ?p2 = [?a, ?b]"
    unfolding example_expected_patterns by code_simp
  have g0: "filepath_Glob example_sys ?p0 = []"
    unfolding example_expected_patterns by code_simp
  have sa: "os_Stat example_sys ?a = Some 100" by code_simp
  have sb: "os_Stat example_sys ?b = Some 200" by code_simp
  have sz: "os_Stat example_sys ''/g/tmp/h2/chats/session-z-abcdefgh.json'' = Some 900"
    by code_simp
  have lb: "fst (locateSessionFile example_sys ''/proj'' ''abcdefgh-1111'') = ?b"
    by code_simp
  have scan0: "fst (findGeminiSessionInAllProjects example_sys ''nothere0-4444'') = ''''"
    by code_simp
  have pos: "\<exists>u. os_Stat example_sys ?a = Some u \<and> 0 < u"
    unfolding sa by simp
  have several: "1 < length (filepath_Glob example_sys ?p2) \<and>
    '''' \<notin> set (filepath_Glob example_sys ?p2) \<and>
    (\<exists>g \<in> set (filepath_Glob example_sys ?p2). \<exists>u. os_Stat example_sys g = Some u \<and> 0 < u)"
    unfolding g2 using pos by simp
  note thm2 = locator_returns_most_recent_match
    [of example_sys "''/proj''" "''abcdefgh-1111''" example_analytics,
     THEN conjunct1, rule_format, OF several]
  note ex = thm2 [THEN conjunct1, unfolded g2]
  note thm0 = locator_returns_most_recent_match
    [of example_sys "''/proj''" "''nothere0-4444''" example_analytics,
     THEN conjunct2, rule_format, OF g0]
  have b: "8 \<le> length ''nothere0-4444'' \<and>
           fst (findGeminiSessionInAllProjects example_sys ''nothere0-4444'') = ''''"
    unfolding scan0 by simp
  note nf = thm0 [THEN conjunct2, THEN conjunct2, rule_format, OF b]
  note n1 = nf [THEN conjunct1]
  note n2 = nf [THEN conjunct2, THEN conjunct1]
  note n3 = nf [THEN conjunct2, THEN conjunct2]
  from g2 sa sb sz ex lb g0 n1 n2 n3 show ?thesis by (intro conjI)
qed

end
